theory Spec2Isabelle
  imports Complex_Main "HOL-Library.Char_ord" "HOL-Library.List_Lexorder" "HOL-Library.Sublist"
    "HOL-Library.Multiset"
begin

section \<open>Python values shared by all modules\<close>

text \<open>
  Python strings are modelled as \<open>string\<close>; each \<open>char\<close> stands for one code point
  below 256, so \<open>length\<close> is Python's \<open>len\<close> on such text. Python integers are \<open>int\<close>.
  Exceptions are values of \<open>py_error\<close>, carried in the left summand of a result.
\<close>

datatype py_error = RequestException | HTTPError | ValueError

text \<open>The slice \<^verbatim>\<open>xs[:n]\<close>: a negative bound counts from the end and is clamped at 0.\<close>

definition py_take :: "int \<Rightarrow> 'a list \<Rightarrow> 'a list" where
  "py_take n xs =
     (if n < 0 then take (nat (int (length xs) + n)) xs else take (nat n) xs)"

text \<open>\<^verbatim>\<open>d.get(key, default)\<close> on a key that may be absent.\<close>

definition dict_get :: "'a option \<Rightarrow> 'a \<Rightarrow> 'a" where
  "dict_get v d = (case v of None \<Rightarrow> d | Some x \<Rightarrow> x)"

text \<open>The truth value of a Python string: the empty string is falsy.\<close>

definition truthy :: "string \<Rightarrow> bool" where
  "truthy s = (s \<noteq> [])"

section \<open>The article dictionary\<close>

text \<open>
  An article is a dictionary with string keys. Each key the code reads or writes is a
  field; \<open>None\<close> is an absent key. The value of \<^verbatim>\<open>'source'\<close> is itself a dictionary with
  the one key \<^verbatim>\<open>'name'\<close>.
\<close>

record source_dict =
  name :: "string option"

record article =
  title :: "string option"
  description :: "string option"
  content :: "string option"
  url :: "string option"
  urlToImage :: "string option"
  publishedAt :: "string option"
  published_date :: "string option"
  source :: "source_dict option"
  has_full_content :: "bool option"
  author :: "string option"
  saved_at :: "string option"

section \<open>news_fetcher.py: the REST adapters and the aggregator\<close>

text \<open>
  The HTTP exchange \<^verbatim>\<open>requests.get(url, params=params, timeout=10)\<close>,
  \<^verbatim>\<open>raise_for_status()\<close>, \<^verbatim>\<open>response.json()\<close> is a parameter of the model: a function
  from the request to either the exception raised or the decoded body. Every adapter
  returns, beside its result, the list of requests it issued.
\<close>

datatype param = PStr string | PInt int

record request =
  req_url :: string
  req_params :: "(string \<times> param) list"

record guardian_fields =
  trailText :: "string option"
  bodyText :: "string option"
  shortUrl :: "string option"
  thumbnail :: "string option"

record guardian_item =
  webTitle :: "string option"
  webUrl :: "string option"
  webPublicationDate :: "string option"
  item_fields :: "guardian_fields option"

record guardian_response =
  results :: "guardian_item list option"

record guardian_data =
  response :: "guardian_response option"

record newsapi_item =
  na_title :: "string option"
  na_description :: "string option"
  na_content :: "string option"
  na_url :: "string option"
  na_urlToImage :: "string option"
  na_publishedAt :: "string option"
  na_source :: "source_dict option"

record newsapi_data =
  articles :: "newsapi_item list option"

text \<open>The fetcher object: the two keys read from the environment, and the network.\<close>

record fetcher =
  newsapi_key :: "string option"
  guardian_key :: string
  guardian_http :: "request \<Rightarrow> py_error + guardian_data"
  newsapi_http :: "request \<Rightarrow> py_error + newsapi_data"

definition no_fields :: guardian_fields where
  "no_fields = \<lparr>trailText = None, bodyText = None, shortUrl = None, thumbnail = None\<rparr>"

definition guardian_article :: "guardian_item \<Rightarrow> article" where
  "guardian_article item =
     (let fs = dict_get (item_fields item) no_fields in
      \<lparr>title = Some (dict_get (webTitle item) ''No Title''),
       description = Some (dict_get (trailText fs) ''No description available''),
       content = Some (dict_get (bodyText fs) ''''),
       url = Some (dict_get (shortUrl fs) (dict_get (webUrl item) '''')),
       urlToImage = Some (dict_get (thumbnail fs) ''''),
       publishedAt = Some (dict_get (webPublicationDate item) ''''),
       published_date = None,
       source = Some \<lparr>name = Some ''The Guardian''\<rparr>,
       has_full_content = Some True,
       author = None,
       saved_at = None\<rparr>)"

definition guardian_request :: "fetcher \<Rightarrow> string \<Rightarrow> int \<Rightarrow> request" where
  "guardian_request self query max_articles =
     \<lparr>req_url = ''https://content.guardianapis.com/search'',
      req_params =
        [(''q'', PStr query),
         (''show-fields'', PStr ''bodyText,thumbnail,shortUrl,trailText''),
         (''page-size'', PInt (min max_articles 50)),
         (''order-by'', PStr ''newest''),
         (''api-key'', PStr (guardian_key self))]\<rparr>"

definition fetch_from_guardian ::
  "fetcher \<Rightarrow> string \<Rightarrow> int \<Rightarrow> (py_error + article list) \<times> request list" where
  "fetch_from_guardian self query max_articles =
     (let rq = guardian_request self query max_articles in
      case guardian_http self rq of
        Inl e \<Rightarrow> (Inl e, [rq])
      | Inr data \<Rightarrow>
          (Inr (map guardian_article
                  (dict_get (results (dict_get (response data) \<lparr>results = None\<rparr>)) [])),
           [rq]))"

definition newsapi_article :: "newsapi_item \<Rightarrow> article" where
  "newsapi_article item =
     \<lparr>title = Some (dict_get (na_title item) ''No Title''),
      description = Some (dict_get (na_description item) ''No description available''),
      content = Some (dict_get (na_content item) ''''),
      url = Some (dict_get (na_url item) ''''),
      urlToImage = Some (dict_get (na_urlToImage item) ''''),
      publishedAt = Some (dict_get (na_publishedAt item) ''''),
      published_date = None,
      source = Some (dict_get (na_source item) \<lparr>name = None\<rparr>),
      has_full_content = Some False,
      author = None,
      saved_at = None\<rparr>"

definition newsapi_request :: "string \<Rightarrow> string \<Rightarrow> int \<Rightarrow> request" where
  "newsapi_request key query max_articles =
     \<lparr>req_url = ''https://newsapi.org/v2/everything'',
      req_params =
        [(''q'', PStr query),
         (''sortBy'', PStr ''publishedAt''),
         (''pageSize'', PInt max_articles),
         (''apiKey'', PStr key),
         (''language'', PStr ''en'')]\<rparr>"

text \<open>
  \<^verbatim>\<open>if not self.newsapi_key: return []\<close> comes first: \<^verbatim>\<open>os.getenv\<close> gives \<open>None\<close> for an
  unset variable, and an empty value is falsy as well.
\<close>

definition fetch_from_newsapi ::
  "fetcher \<Rightarrow> string \<Rightarrow> int \<Rightarrow> (py_error + article list) \<times> request list" where
  "fetch_from_newsapi self query max_articles =
     (case newsapi_key self of
        None \<Rightarrow> (Inr [], [])
      | Some key \<Rightarrow>
          if \<not> truthy key then (Inr [], [])
          else
            (let rq = newsapi_request key query max_articles in
             case newsapi_http self rq of
               Inl e \<Rightarrow> (Inl e, [rq])
             | Inr data \<Rightarrow> (Inr (map newsapi_article (dict_get (articles data) [])), [rq])))"

text \<open>
  The loop over the sources: an exception of a source is caught and the loop goes on; a
  non-empty result is appended, and the loop stops once \<^verbatim>\<open>len(articles) >= max_articles\<close>.
  A source after the \<^verbatim>\<open>break\<close> is never called, so it issues no request.
\<close>

type_synonym source_fn = "string \<Rightarrow> int \<Rightarrow> (py_error + article list) \<times> request list"

fun try_sources ::
  "source_fn list \<Rightarrow> string \<Rightarrow> int \<Rightarrow> article list \<Rightarrow> request list
     \<Rightarrow> article list \<times> request list" where
  "try_sources [] query max_articles acc sent = (acc, sent)"
| "try_sources (fetch_method # rest) query max_articles acc sent =
     (case fetch_method query max_articles of
        (Inl e, rs) \<Rightarrow> try_sources rest query max_articles acc (sent @ rs)
      | (Inr fetched, rs) \<Rightarrow>
          if fetched \<noteq> [] then
            (if max_articles \<le> int (length (acc @ fetched))
             then (acc @ fetched, sent @ rs)
             else try_sources rest query max_articles (acc @ fetched) (sent @ rs))
          else try_sources rest query max_articles acc (sent @ rs))"

text \<open>The loop that removes duplicates, with its set of seen titles.\<close>

fun dedup_loop :: "article list \<Rightarrow> string set \<Rightarrow> article list \<Rightarrow> article list" where
  "dedup_loop [] seen_titles unique_articles = unique_articles"
| "dedup_loop (a # rest) seen_titles unique_articles =
     (let t = dict_get (title a) '''' in
      if truthy t \<and> t \<notin> seen_titles
      then dedup_loop rest (insert t seen_titles) (unique_articles @ [a])
      else dedup_loop rest seen_titles unique_articles)"

definition accumulated :: "fetcher \<Rightarrow> string \<Rightarrow> int \<Rightarrow> article list \<times> request list" where
  "accumulated self query max_articles =
     try_sources [fetch_from_guardian self, fetch_from_newsapi self] query max_articles [] []"

definition unique_articles :: "article list \<Rightarrow> article list" where
  "unique_articles arts = dedup_loop arts {} []"

definition fetch_news :: "fetcher \<Rightarrow> string \<Rightarrow> int \<Rightarrow> article list \<times> request list" where
  "fetch_news self query max_articles =
     (case accumulated self query max_articles of
        (arts, sent) \<Rightarrow> (py_take max_articles (unique_articles arts), sent))"

text \<open>\<^verbatim>\<open>ArticleReader.get_full_text\<close>: the reader of the flag checks the content as well.\<close>

definition get_full_text :: "article \<Rightarrow> bool \<times> string" where
  "get_full_text a =
     (if dict_get (has_full_content a) False \<and> truthy (dict_get (content a) [])
      then (True, dict_get (content a) [])
      else (False, ''Full article not available. Click 'Open in Browser' to read more.''))"

text \<open>
  \<^verbatim>\<open>NewsSourceFetcher.has_full_article\<close>, documented as "Check if article has full text
  content": it returns the flag alone.
\<close>

definition has_full_article :: "article \<Rightarrow> bool" where
  "has_full_article a = dict_get (has_full_content a) False"

text \<open>The articles of a list that carry a given title.\<close>

definition with_title :: "string \<Rightarrow> article list \<Rightarrow> article list" where
  "with_title t arts = filter (\<lambda>a. dict_get (title a) [] = t) arts"

subsection \<open>A sample exchange\<close>

text \<open>
  A Guardian response of four items: two share a title, one has no \<^verbatim>\<open>fields\<close>, one has an
  empty title. No NewsAPI key is set.
\<close>

definition sample_items :: "guardian_item list" where
  "sample_items =
     [\<lparr>webTitle = Some ''Space Mission Launches'', webUrl = Some ''https://gu.com/a'',
       webPublicationDate = Some ''2024-05-01T10:00:00Z'',
       item_fields = Some \<lparr>trailText = Some ''Lift-off'', bodyText = Some ''The rocket left.'',
                             shortUrl = Some ''https://gu.com/p/1'', thumbnail = None\<rparr>\<rparr>,
      \<lparr>webTitle = Some ''Budget Vote'', webUrl = Some ''https://gu.com/b'',
       webPublicationDate = Some ''2024-05-01T09:00:00Z'', item_fields = None\<rparr>,
      \<lparr>webTitle = Some ''Space Mission Launches'', webUrl = Some ''https://gu.com/c'',
       webPublicationDate = Some ''2024-05-01T08:00:00Z'',
       item_fields = Some \<lparr>trailText = None, bodyText = Some ''Again.'',
                             shortUrl = None, thumbnail = None\<rparr>\<rparr>,
      \<lparr>webTitle = Some [], webUrl = Some ''https://gu.com/d'',
       webPublicationDate = None, item_fields = None\<rparr>]"

definition sample_fetcher :: fetcher where
  "sample_fetcher =
     \<lparr>newsapi_key = None, guardian_key = ''test'',
      guardian_http = (\<lambda>rq. Inr \<lparr>response = Some \<lparr>results = Some sample_items\<rparr>\<rparr>),
      newsapi_http = (\<lambda>rq. Inl RequestException)\<rparr>"

definition sample_articles :: "article list" where
  "sample_articles = map guardian_article sample_items"

section \<open>summarization.py: the extractive summarizer\<close>

subsection \<open>Character classes of Python on code points below 256\<close>

definition is_space :: "char \<Rightarrow> bool" where
  "is_space c =
     (let n = (of_char c :: nat) in
      (9 \<le> n \<and> n \<le> 13) \<or> (28 \<le> n \<and> n \<le> 32) \<or> n = 133 \<or> n = 160)"

definition is_alnum :: "char \<Rightarrow> bool" where
  "is_alnum c =
     (let n = (of_char c :: nat) in
      (48 \<le> n \<and> n \<le> 57) \<or> (65 \<le> n \<and> n \<le> 90) \<or> (97 \<le> n \<and> n \<le> 122) \<or>
      n = 170 \<or> n = 178 \<or> n = 179 \<or> n = 181 \<or> n = 185 \<or> n = 186 \<or>
      (188 \<le> n \<and> n \<le> 190) \<or> (192 \<le> n \<and> n \<le> 214) \<or>
      (216 \<le> n \<and> n \<le> 246) \<or> 248 \<le> n)"

text \<open>The class \<^verbatim>\<open>\w\<close> of a Unicode pattern: alphanumeric or the underscore.\<close>

definition is_word_char :: "char \<Rightarrow> bool" where
  "is_word_char c = (is_alnum c \<or> c = CHR ''_'')"

definition is_digit_char :: "char \<Rightarrow> bool" where
  "is_digit_char c =
     (let n = (of_char c :: nat) in
      (48 \<le> n \<and> n \<le> 57) \<or> n = 178 \<or> n = 179 \<or> n = 185)"

definition lower_char :: "char \<Rightarrow> char" where
  "lower_char c =
     (let n = (of_char c :: nat) in
      if (65 \<le> n \<and> n \<le> 90) \<or> (192 \<le> n \<and> n \<le> 214) \<or> (216 \<le> n \<and> n \<le> 222)
      then char_of (n + 32) else c)"

definition lower :: "string \<Rightarrow> string" where
  "lower s = map lower_char s"

definition strip :: "string \<Rightarrow> string" where
  "strip s = rev (dropWhile is_space (rev (dropWhile is_space s)))"

text \<open>\<^verbatim>\<open>str.isdigit()\<close>: non-empty and every character a digit.\<close>

definition isdigit :: "string \<Rightarrow> bool" where
  "isdigit s = (s \<noteq> [] \<and> list_all is_digit_char s)"

text \<open>\<^verbatim>\<open>str.split()\<close>: the maximal runs of characters that are not whitespace.\<close>

fun split_ws :: "string \<Rightarrow> string \<Rightarrow> string list" where
  "split_ws cur [] = (if cur = [] then [] else [cur])"
| "split_ws cur (c # cs) =
     (if is_space c
      then (if cur = [] then split_ws [] cs else cur # split_ws [] cs)
      else split_ws (cur @ [c]) cs)"

text \<open>\<^verbatim>\<open>' '.join(parts)\<close>.\<close>

fun join :: "string list \<Rightarrow> string" where
  "join [] = []"
| "join [x] = x"
| "join (x # y # ys) = x @ '' '' @ join (y # ys)"

text \<open>
  \<^verbatim>\<open>re.split(r'[.!?]+', text)\<close>: the pieces between maximal runs of sentence enders. The flag
  says that the previous character belonged to such a run.
\<close>

definition is_ender :: "char \<Rightarrow> bool" where
  "is_ender c = (c = CHR ''.'' \<or> c = CHR ''!'' \<or> c = CHR ''?'')"

fun re_split :: "bool \<Rightarrow> string \<Rightarrow> string \<Rightarrow> string list" where
  "re_split in_run cur [] = [cur]"
| "re_split in_run cur (c # cs) =
     (if is_ender c
      then (if in_run then re_split True cur cs else cur # re_split True [] cs)
      else re_split False (cur @ [c]) cs)"

definition split_into_sentences :: "string \<Rightarrow> string list" where
  "split_into_sentences text =
     filter (\<lambda>sent. 20 < length sent \<and> length sent < 300)
       (map strip (re_split False [] text))"

definition tokenize :: "string \<Rightarrow> string list" where
  "tokenize text =
     filter (\<lambda>w. 2 < length w \<and> \<not> isdigit w)
       (split_ws []
          (lower (map (\<lambda>c. if is_word_char c \<or> is_space c then c else CHR '' '') text)))"

definition stop_words :: "string list" where
  "stop_words =
     [''the'', ''a'', ''an'', ''and'', ''or'', ''but'', ''in'', ''on'', ''at'', ''to'', ''for'',
      ''of'', ''with'', ''by'', ''from'', ''as'', ''is'', ''was'', ''are'', ''been'', ''be'',
      ''have'', ''has'', ''had'', ''do'', ''does'', ''did'', ''will'', ''would'', ''should'',
      ''could'', ''may'', ''might'', ''must'', ''can'', ''this'', ''that'', ''these'', ''those'',
      ''i'', ''you'', ''he'', ''she'', ''it'', ''we'', ''they'', ''what'', ''which'', ''who'',
      ''when'', ''where'', ''why'', ''how'', ''all'', ''each'', ''every'', ''both'', ''few'',
      ''more'', ''most'', ''other'', ''some'', ''such'', ''no'', ''nor'', ''not'', ''only'',
      ''own'', ''same'', ''so'', ''than'', ''too'', ''very'', ''just'', ''said'', ''says'']"

definition important_keywords :: "string list" where
  "important_keywords =
     [''new'', ''research'', ''study'', ''discover'', ''found'', ''reveal'', ''show'',
      ''develop'', ''create'', ''build'', ''launch'', ''announce'', ''release'',
      ''important'', ''significant'', ''major'', ''breakthrough'', ''innovation'',
      ''first'', ''latest'', ''update'', ''improve'', ''advance'', ''technology'']"

subsection \<open>Scoring\<close>

text \<open>\<^verbatim>\<open>Counter(all_words)\<close>, built one word at a time.\<close>

fun counter :: "string list \<Rightarrow> (string \<rightharpoonup> nat) \<Rightarrow> (string \<rightharpoonup> nat)" where
  "counter [] m = m"
| "counter (w # ws) m = counter ws (m(w \<mapsto> dict_get (m w) 0 + 1))"

definition drop_stop_words :: "(string \<rightharpoonup> nat) \<Rightarrow> (string \<rightharpoonup> nat)" where
  "drop_stop_words m =
     (\<lambda>word. case m word of
        None \<Rightarrow> None
      | Some freq \<Rightarrow>
          if lower word \<notin> set stop_words \<or> lower word \<in> set important_keywords
          then Some freq else None)"

fun boost :: "string list \<Rightarrow> (string \<rightharpoonup> nat) \<Rightarrow> (string \<rightharpoonup> nat)" where
  "boost [] m = m"
| "boost (word # ws) m =
     boost ws (case m word of None \<Rightarrow> m | Some freq \<Rightarrow> m(word \<mapsto> freq * 2))"

text \<open>
  The score of a sentence is floating-point arithmetic on five integers: the sum of the
  frequencies of its words, the number of its words, its position, the number of words it
  shares with the title, and the number of its important keywords. That arithmetic,
  \<^verbatim>\<open>(base_score + position_bonus + title_bonus + keyword_bonus) * length_penalty\<close>, is the
  parameter \<open>final_score\<close>, with values in any linear order.
\<close>

fun score_each ::
  "(nat \<Rightarrow> nat \<Rightarrow> nat \<Rightarrow> nat \<Rightarrow> nat \<Rightarrow> 's) \<Rightarrow> (string \<rightharpoonup> nat) \<Rightarrow> string set \<Rightarrow> nat
     \<Rightarrow> string list \<Rightarrow> (string \<times> 's) list" where
  "score_each final_score word_freq title_words i [] = []"
| "score_each final_score word_freq title_words i (sentence # rest) =
     (let ws = tokenize sentence in
      if length ws = 0 then score_each final_score word_freq title_words (Suc i) rest
      else
        (sentence,
         final_score
           (sum_list (map (\<lambda>word. dict_get (word_freq word) 0) ws))
           (length ws)
           i
           (card (set ws \<inter> title_words))
           (length (filter (\<lambda>word. lower word \<in> set important_keywords) ws)))
        # score_each final_score word_freq title_words (Suc i) rest)"

definition score_sentences_advanced ::
  "(nat \<Rightarrow> nat \<Rightarrow> nat \<Rightarrow> nat \<Rightarrow> nat \<Rightarrow> 's) \<Rightarrow> string list \<Rightarrow> string \<Rightarrow> (string \<times> 's) list" where
  "score_sentences_advanced final_score sentences ttl =
     (let all_words = concat (map tokenize sentences);
          word_freq = boost important_keywords (drop_stop_words (counter all_words Map.empty));
          title_words = set (tokenize ttl)
      in score_each final_score word_freq title_words 0 sentences)"

text \<open>
  Where a concrete scoring is needed, the formula is taken in exact rational arithmetic.
  This is not the code's floating-point arithmetic: two scores that are equal as
  rationals may differ as floats, and then rank differently. It is used only at concrete
  articles whose scores are far apart; every general statement below holds for any
  \<open>final_score\<close>.
\<close>

definition exact_score :: "nat \<Rightarrow> nat \<Rightarrow> nat \<Rightarrow> nat \<Rightarrow> nat \<Rightarrow> rat" where
  "exact_score freq_sum n_words i title_overlap n_keywords =
     (let base_score = of_nat freq_sum / of_nat n_words;
          position_bonus = (if i < 3 then 1 else 1 / 2);
          title_bonus = of_nat title_overlap * (1 / 2);
          length_penalty = (if n_words < 5 then 1 / 2 else if 40 < n_words then 7 / 10 else 1);
          keyword_bonus = of_nat n_keywords * (3 / 10)
      in (base_score + position_bonus + title_bonus + keyword_bonus) * length_penalty)"

subsection \<open>The summary\<close>

text \<open>\<^verbatim>\<open>sorted(xs, key=key, reverse=True)\<close>: stable, equal keys keep their order.\<close>

definition sorted_reverse :: "('a \<Rightarrow> 'k::linorder) \<Rightarrow> 'a list \<Rightarrow> 'a list" where
  "sorted_reverse key xs = rev (sort_key key (rev xs))"

text \<open>
  \<^verbatim>\<open>sorted(top, key=lambda x: sentences.index(x[0]))\<close>: \<^verbatim>\<open>index\<close> gives the first position
  of its argument and raises ValueError when the argument is not in the list.
\<close>

definition sorted_by_index ::
  "string list \<Rightarrow> (string \<times> 's) list \<Rightarrow> py_error + (string \<times> 's) list" where
  "sorted_by_index sentences top_sentences =
     (if list_all (\<lambda>x. fst x \<in> set sentences) top_sentences
      then Inr (sort_key (\<lambda>x. length (takeWhile (\<lambda>y. y \<noteq> fst x) sentences))
                  top_sentences)
      else Inl ValueError)"

text \<open>\<^verbatim>\<open>s[:max_length] + "..." if len(s) > max_length else s\<close>.\<close>

definition cut :: "int \<Rightarrow> string \<Rightarrow> string" where
  "cut max_length s =
     (if max_length < int (length s) then py_take max_length s @ ''...'' else s)"

text \<open>\<^verbatim>\<open>s.rsplit(' ', 1)[0]\<close>: what stands before the last space, or all of \<open>s\<close>.\<close>

definition rsplit_head :: "string \<Rightarrow> string" where
  "rsplit_head s =
     (if CHR '' '' \<in> set s
      then rev (tl (dropWhile (\<lambda>c. c \<noteq> CHR '' '') (rev s)))
      else s)"

definition full_text :: "article \<Rightarrow> string" where
  "full_text a =
     dict_get (title a) [] @ ''. '' @ dict_get (description a) [] @ ''. ''
       @ dict_get (content a) []"

definition summarize ::
  "(nat \<Rightarrow> nat \<Rightarrow> nat \<Rightarrow> nat \<Rightarrow> nat \<Rightarrow> 's::linorder) \<Rightarrow> article \<Rightarrow> int \<Rightarrow> int
     \<Rightarrow> py_error + string" where
  "summarize final_score a max_sentences max_length =
     (if length (full_text a) < 100 then Inr (cut max_length (full_text a))
      else
        (let sentences = split_into_sentences (full_text a) in
         if length sentences = 0 then Inr (cut max_length (dict_get (description a) []))
         else if int (length sentences) \<le> max_sentences
         then Inr (cut max_length (join sentences))
         else
           (let scored_sentences =
                  score_sentences_advanced final_score sentences (dict_get (title a) []);
                top_sentences = py_take max_sentences (sorted_reverse snd scored_sentences)
            in case sorted_by_index sentences top_sentences of
                 Inl e \<Rightarrow> Inl e
               | Inr ordered \<Rightarrow>
                   (let summary = join (map fst ordered) in
                    Inr (if max_length < int (length summary)
                         then rsplit_head (py_take max_length summary) @ ''...''
                         else summary)))))"

subsection \<open>Sample articles\<close>

definition blank_article :: article where
  "blank_article =
     \<lparr>title = None, description = None, content = None, url = None, urlToImage = None,
      publishedAt = None, published_date = None, source = None, has_full_content = None,
      author = None, saved_at = None\<rparr>"

definition headline_only :: article where
  "headline_only = blank_article\<lparr>title := Some ''AI''\<rparr>"

text \<open>A short article with all three fields.\<close>

definition brief :: article where
  "brief =
     blank_article
       \<lparr>title := Some ''Rain'', description := Some ''Wet week'',
        content := Some ''Bring a coat''\<rparr>"

text \<open>Ten fragments, none longer than 20 characters; the text has more than 100.\<close>

definition fragments :: article where
  "fragments =
     blank_article
       \<lparr>title := Some ''Notes'',
        description := Some
          ''Short one. Tiny two. Small three. Brief four. Little five. Fast six. Quick seven. Eight now. Nine go. Ten end.''\<rparr>"

text \<open>Two sentences of reasonable length.\<close>

definition two_sentences :: article where
  "two_sentences =
     blank_article
       \<lparr>title := Some ''Scientists map the deep ocean floor'',
        description := Some ''A survey ship spent nine months charting trenches in the Pacific'',
        content := Some []\<rparr>"

section \<open>tutorial_links.py: the educational classifier\<close>

definition educational_keywords :: "string list" where
  "educational_keywords =
     [''learn'', ''tutorial'', ''course'', ''education'', ''study'', ''training'',
      ''guide'', ''teaching'', ''lesson'', ''university'', ''college'', ''school'',
      ''research'', ''science'', ''technology'', ''programming'', ''coding'',
      ''development'', ''engineering'', ''mathematics'', ''physics'', ''chemistry'',
      ''biology'', ''history'', ''language'', ''skill'', ''knowledge'']"

text \<open>\<^verbatim>\<open>keyword in text\<close> on strings: \<open>keyword\<close> occurs as a contiguous piece of \<open>text\<close>.\<close>

fun starts_with :: "string \<Rightarrow> string \<Rightarrow> bool" where
  "starts_with [] s = True"
| "starts_with (k # ks) [] = False"
| "starts_with (k # ks) (c # cs) = (k = c \<and> starts_with ks cs)"

fun str_in :: "string \<Rightarrow> string \<Rightarrow> bool" where
  "str_in k [] = (k = [])"
| "str_in k (c # cs) = (starts_with k (c # cs) \<or> str_in k cs)"

fun keyword_loop :: "string list \<Rightarrow> string \<Rightarrow> string \<Rightarrow> nat \<Rightarrow> nat" where
  "keyword_loop [] text ttl score = score"
| "keyword_loop (keyword # rest) text ttl score =
     (if str_in keyword text
      then (if str_in keyword ttl
            then keyword_loop rest text ttl (score + 2)
            else keyword_loop rest text ttl (score + 1))
      else keyword_loop rest text ttl score)"

text \<open>What one keyword adds to the score.\<close>

definition weight :: "string \<Rightarrow> string \<Rightarrow> string \<Rightarrow> nat" where
  "weight text ttl k = (if str_in k text then (if str_in k ttl then 2 else 1) else 0)"

definition lowered_text :: "article \<Rightarrow> string" where
  "lowered_text a =
     lower (dict_get (title a) []) @ '' '' @ lower (dict_get (description a) []) @ '' ''
       @ lower (dict_get (content a) [])"

definition educational_score :: "article \<Rightarrow> nat" where
  "educational_score a =
     keyword_loop educational_keywords (lowered_text a) (lower (dict_get (title a) [])) 0"

definition should_show_learn_button :: "article \<Rightarrow> bool" where
  "should_show_learn_button a = (if 2 \<le> educational_score a then True else False)"

section \<open>bookmarking.py: the bookmark store\<close>

text \<open>
  The state of a \<^verbatim>\<open>BookmarkManager\<close> is its list \<^verbatim>\<open>self.bookmarks\<close>. \<^verbatim>\<open>save_bookmarks\<close> writes
  that list to a file and catches every exception; it never changes the list. The time
  stamp \<^verbatim>\<open>datetime.now().isoformat()\<close> is the parameter \<open>now\<close>.
\<close>

record bookmark_manager =
  bookmarks :: "article list"

fun already_bookmarked :: "article list \<Rightarrow> article \<Rightarrow> bool" where
  "already_bookmarked [] a = False"
| "already_bookmarked (bookmark # rest) a =
     (if url bookmark = url a then True else already_bookmarked rest a)"

definition make_bookmark :: "string \<Rightarrow> article \<Rightarrow> article" where
  "make_bookmark now a =
     \<lparr>title = Some (dict_get (title a) ''No Title''),
      description = Some (dict_get (description a) []),
      content = Some (dict_get (content a) []),
      url = Some (dict_get (url a) []),
      urlToImage = Some (dict_get (urlToImage a) []),
      publishedAt = Some (dict_get (publishedAt a) []),
      published_date = None,
      source = Some (dict_get (source a) \<lparr>name = None\<rparr>),
      has_full_content = None,
      author = None,
      saved_at = Some now\<rparr>"

definition add_bookmark :: "string \<Rightarrow> bookmark_manager \<Rightarrow> article \<Rightarrow> bool \<times> bookmark_manager" where
  "add_bookmark now self a =
     (if already_bookmarked (bookmarks self) a then (False, self)
      else (True, self\<lparr>bookmarks := make_bookmark now a # bookmarks self\<rparr>))"

definition get_bookmarks :: "bookmark_manager \<Rightarrow> article list" where
  "get_bookmarks self = bookmarks self"

section \<open>rss_fetcher.py: the RSS fetcher\<close>

text \<open>
  \<^verbatim>\<open>fetch_from_source\<close> reads the feeds through the libraries feedparser and BeautifulSoup;
  it is the parameter \<open>fetch_from_source\<close>, from the source's name, its feeds, the query
  and the limit to the articles or the exception raised.
\<close>

definition rss_feeds :: "(string \<times> string list) list" where
  "rss_feeds =
     [(''bbc'',
       [''http://feeds.bbci.co.uk/news/rss.xml'',
        ''http://feeds.bbci.co.uk/news/technology/rss.xml'',
        ''http://feeds.bbci.co.uk/news/science_and_environment/rss.xml'',
        ''http://feeds.bbci.co.uk/news/business/rss.xml'']),
      (''npr'',
       [''https://feeds.npr.org/1001/rss.xml'',
        ''https://feeds.npr.org/1019/rss.xml'',
        ''https://feeds.npr.org/1007/rss.xml'']),
      (''reuters'',
       [''https://www.reutersagency.com/feed/?taxonomy=best-topics&post_type=best'']),
      (''techcrunch'', [''https://techcrunch.com/feed/'']),
      (''sciencedaily'', [''https://www.sciencedaily.com/rss/all.xml'']),
      (''mit_news'', [''https://news.mit.edu/rss/feed''])]"

type_synonym rss_source_fn = "string \<Rightarrow> string list \<Rightarrow> string \<Rightarrow> int \<Rightarrow> py_error + article list"

fun rss_loop ::
  "rss_source_fn \<Rightarrow> (string \<times> string list) list \<Rightarrow> string \<Rightarrow> int \<Rightarrow> article list
     \<Rightarrow> article list" where
  "rss_loop fetch_from_source [] query max_results all_articles = all_articles"
| "rss_loop fetch_from_source ((source_name, feeds) # rest) query max_results all_articles =
     (case fetch_from_source source_name feeds query max_results of
        Inl e \<Rightarrow> rss_loop fetch_from_source rest query max_results all_articles
      | Inr arts \<Rightarrow>
          if max_results \<le> int (length (all_articles @ arts)) then all_articles @ arts
          else rss_loop fetch_from_source rest query max_results (all_articles @ arts))"

definition rss_collected :: "rss_source_fn \<Rightarrow> string \<Rightarrow> int \<Rightarrow> article list" where
  "rss_collected fetch_from_source query max_results =
     rss_loop fetch_from_source rss_feeds query max_results []"

definition date_key :: "article \<Rightarrow> string" where
  "date_key x = dict_get (published_date x) []"

definition rss_fetch_news :: "rss_source_fn \<Rightarrow> string \<Rightarrow> int \<Rightarrow> article list" where
  "rss_fetch_news fetch_from_source query max_results =
     py_take max_results
       (sorted_reverse date_key (rss_collected fetch_from_source query max_results))"

text \<open>
  A well-formed \<^verbatim>\<open>published_date\<close> is what \<^verbatim>\<open>parse_date\<close> returns on success, the
  \<^verbatim>\<open>isoformat()\<close> of a time with whole seconds: \<^verbatim>\<open>YYYY-MM-DDTHH:MM:SS\<close>. In the template a
  \<^verbatim>\<open>d\<close> stands for a decimal digit. The instant such a string names is read off as the
  number its fourteen digits spell.
\<close>

definition is_digit :: "char \<Rightarrow> bool" where
  "is_digit c = (CHR ''0'' \<le> c \<and> c \<le> CHR ''9'')"

fun fits :: "string \<Rightarrow> string \<Rightarrow> bool" where
  "fits [] [] = True"
| "fits (p # ps) (c # cs) = ((if p = CHR ''d'' then is_digit c else c = p) \<and> fits ps cs)"
| "fits ps cs = False"

definition well_formed_date :: "string \<Rightarrow> bool" where
  "well_formed_date s = fits ''dddd-dd-ddTdd:dd:dd'' s"

fun decimal :: "nat \<Rightarrow> string \<Rightarrow> nat" where
  "decimal acc [] = acc"
| "decimal acc (c # cs) =
     (if is_digit c then decimal (10 * acc + (of_char c - 48)) cs else decimal acc cs)"

text \<open>The value of a decimal digit.\<close>

definition dv :: "char \<Rightarrow> nat" where
  "dv c = of_char c - 48"

definition instant :: "string \<Rightarrow> nat" where
  "instant s = decimal 0 s"

section \<open>Sample inputs for the classifier, the bookmark store and the RSS fetcher\<close>

definition tutorial_article :: article where
  "tutorial_article =
     blank_article
       \<lparr>title := Some ''Python Tutorial for Beginners'', description := Some ''A free course''\<rparr>"

text \<open>Keywords in the description alone, in the content alone, and a single mention.\<close>

definition description_only :: article where
  "description_only =
     blank_article
       \<lparr>title := Some ''Weekend plans'',
        description := Some ''An online Course about Programming''\<rparr>"

definition content_only :: article where
  "content_only =
     blank_article\<lparr>title := Some ''Notes'', content := Some ''A physics lesson''\<rparr>"

definition one_mention :: article where
  "one_mention =
     blank_article\<lparr>title := Some ''Jazz'', description := Some ''A history of the trumpet''\<rparr>"

definition stored_article :: article where
  "stored_article =
     blank_article\<lparr>title := Some ''Budget Vote'', url := Some ''https://gu.com/b''\<rparr>"

definition new_article :: article where
  "new_article =
     blank_article\<lparr>title := Some ''Space Mission Launches'', url := Some ''https://gu.com/a''\<rparr>"

definition sample_manager :: bookmark_manager where
  "sample_manager = \<lparr>bookmarks = [make_bookmark ''2024-05-01T12:00:00'' stored_article]\<rparr>"

definition dated :: "string \<Rightarrow> string \<Rightarrow> article" where
  "dated t d = blank_article\<lparr>title := Some t, published_date := Some d\<rparr>"

text \<open>Three feeds answer, one of them with two articles in the wrong order; one fails.\<close>

definition sample_feeds :: rss_source_fn where
  "sample_feeds source_name feeds query max_results =
     (if source_name = ''bbc''
      then Inr [dated ''Older'' ''2024-05-01T10:00:00'', dated ''Newest'' ''2024-05-03T08:30:00'']
      else if source_name = ''npr'' then Inl RequestException
      else if source_name = ''reuters'' then Inr [dated ''Middle'' ''2024-05-02T23:59:59'']
      else Inr [])"

section \<open>Properties of the adapters\<close>

text \<open>
  C5. When the API key of the headline adapter is absent from the environment, its fetch
  returns the empty list for every query and limit, issues no request, and raises nothing.
\<close>

theorem newsapi_without_key:
  "fetch_from_newsapi (self\<lparr>newsapi_key := None\<rparr>) query max_articles = (Inr [], [])"
  by (simp add: fetch_from_newsapi_def)

subsection \<open>Slices and the loop that removes duplicates\<close>

lemma dedup_loop_acc: "dedup_loop xs S U = U @ dedup_loop xs S []"
proof (induction xs arbitrary: S U)
  case Nil show ?case by simp
next
  case (Cons a xs)
  show ?case
    using Cons.IH[of "insert (dict_get (title a) []) S" "U @ [a]"]
          Cons.IH[of "insert (dict_get (title a) []) S" "[a]"]
          Cons.IH[of S U]
    by (simp add: Let_def)
qed

lemma dedup_loop_Cons:
  "dedup_loop (a # xs) S [] =
     (if dict_get (title a) [] \<noteq> [] \<and> dict_get (title a) [] \<notin> S
      then a # dedup_loop xs (insert (dict_get (title a) []) S) []
      else dedup_loop xs S [])"
  using dedup_loop_acc[of xs "insert (dict_get (title a) []) S" "[a]"]
  by (simp add: Let_def truthy_def)

lemma dedup_loop_subseq: "subseq (dedup_loop xs S []) xs"
  by (induction xs arbitrary: S) (auto simp add: dedup_loop_Cons simp del: dedup_loop.simps(2))

lemma dedup_loop_titles:
  "a \<in> set (dedup_loop xs S []) \<Longrightarrow> dict_get (title a) [] \<noteq> [] \<and> dict_get (title a) [] \<notin> S"
  by (induction xs arbitrary: S) (auto simp add: dedup_loop_Cons simp del: dedup_loop.simps(2) split: if_splits)

lemma dedup_loop_distinct: "distinct (map (\<lambda>a. dict_get (title a) []) (dedup_loop xs S []))"
  by (induction xs arbitrary: S) (auto simp add: dedup_loop_Cons simp del: dedup_loop.simps(2) dest: dedup_loop_titles)

lemma dedup_loop_filter:
  "filter (\<lambda>a. dict_get (title a) [] = t) (dedup_loop xs S []) =
     (if t = [] \<or> t \<in> S then []
      else case find (\<lambda>a. dict_get (title a) [] = t) xs of None \<Rightarrow> [] | Some a \<Rightarrow> [a])"
proof (induction xs arbitrary: S)
  case Nil show ?case by simp
next
  case (Cons a xs)
  show ?case
    by (auto simp add: dedup_loop_Cons Cons.IH simp del: dedup_loop.simps(2))
qed

lemma py_take_subseq: "subseq (py_take n xs) xs"
  by (simp add: py_take_def prefix_imp_subseq take_is_prefix)

lemma py_take_length: "0 \<le> n \<Longrightarrow> int (length (py_take n xs)) \<le> n"
  by (simp add: py_take_def)

lemma py_take_all: "int (length xs) \<le> n \<Longrightarrow> py_take n xs = xs"
  by (auto simp add: py_take_def)

lemma py_take_set: "set (py_take n xs) \<subseteq> set xs"
  by (auto simp add: py_take_def dest: in_set_takeD)

lemma py_take_distinct: "distinct (map f xs) \<Longrightarrow> distinct (map f (py_take n xs))"
  by (simp add: py_take_def take_map[symmetric] del: take_map)

subsection \<open>The aggregator\<close>

lemma fetch_news_fst:
  "fst (fetch_news self query m) = py_take m (unique_articles (fst (accumulated self query m)))"
  by (simp add: fetch_news_def split: prod.splits)

lemma sample_accumulated_5: "fst (accumulated sample_fetcher ''technology'' 5) = sample_articles"
  by (simp add: accumulated_def fetch_from_guardian_def fetch_from_newsapi_def sample_fetcher_def sample_articles_def dict_get_def sample_items_def)

lemma sample_accumulated_1: "fst (accumulated sample_fetcher ''technology'' 1) = sample_articles"
  by (simp add: accumulated_def fetch_from_guardian_def sample_fetcher_def sample_articles_def dict_get_def sample_items_def)

lemma sample_accumulated_neg: "fst (accumulated sample_fetcher ''technology'' (- 1)) = sample_articles"
  by (simp add: accumulated_def fetch_from_guardian_def sample_fetcher_def sample_articles_def dict_get_def sample_items_def)

lemma sample_unique: "unique_articles sample_articles = [sample_articles ! 0, sample_articles ! 1]"
  by (simp add: unique_articles_def sample_articles_def sample_items_def guardian_article_def dict_get_def truthy_def Let_def no_fields_def)

lemma dedup_loop_first_seen:
  "a \<in> set (dedup_loop xs S []) \<Longrightarrow>
     find (\<lambda>b. dict_get (title b) [] = dict_get (title a) []) xs = Some a"
proof -
  assume a: "a \<in> set (dedup_loop xs S [])"
  let ?t = "dict_get (title a) []"
  from a have t: "?t \<noteq> [] \<and> ?t \<notin> S" by (rule dedup_loop_titles)
  from a have "a \<in> set (filter (\<lambda>b. dict_get (title b) [] = ?t) (dedup_loop xs S []))"
    by simp
  then have "a \<in> set (case find (\<lambda>b. dict_get (title b) [] = ?t) xs of
                          None \<Rightarrow> [] | Some b \<Rightarrow> [b])"
    using t by (simp add: dedup_loop_filter)
  then show ?thesis
    by (cases "find (\<lambda>b. dict_get (title b) [] = ?t) xs") simp_all
qed

lemma fetch_news_subseq:
  "subseq (fst (fetch_news self query m)) (fst (accumulated self query m))"
proof -
  have "subseq (py_take m (unique_articles (fst (accumulated self query m))))
          (unique_articles (fst (accumulated self query m)))"
    by (rule py_take_subseq)
  moreover have "subseq (unique_articles (fst (accumulated self query m)))
          (fst (accumulated self query m))"
    by (simp add: unique_articles_def dedup_loop_subseq)
  ultimately show ?thesis
    unfolding fetch_news_fst by (rule subseq_order.trans)
qed

lemma fetch_news_first_seen:
  "a \<in> set (fst (fetch_news self query m)) \<Longrightarrow>
     find (\<lambda>b. dict_get (title b) [] = dict_get (title a) []) (fst (accumulated self query m))
       = Some a"
proof -
  assume "a \<in> set (fst (fetch_news self query m))"
  then have "a \<in> set (dedup_loop (fst (accumulated self query m)) {} [])"
    using py_take_set by (fastforce simp add: fetch_news_fst unique_articles_def)
  then show ?thesis by (rule dedup_loop_first_seen)
qed

text \<open>
  C1, as the code has it. For every list of fetched articles, the list of unique articles
  keeps the order of the fetched ones and holds, for each non-empty title, exactly the
  first fetched article with that title, and none with an empty title. \<^verbatim>\<open>fetch_news\<close> returns
  the slice \<^verbatim>\<open>[:max_articles]\<close> of that list: its articles stand in the fetched order, each
  is the first fetched article with its title, there are at most \<^verbatim>\<open>max_articles\<close> of them
  when the limit is not negative, and they are the whole list of unique articles when
  that list has at most \<^verbatim>\<open>max_articles\<close> elements.
\<close>

theorem fetch_news_first_seen_then_slice:
  "subseq (unique_articles arts) arts
   \<and> (\<forall>t. t \<noteq> [] \<longrightarrow>
          with_title t (unique_articles arts) =
            (case find (\<lambda>a. dict_get (title a) [] = t) arts of None \<Rightarrow> [] | Some a \<Rightarrow> [a]))
   \<and> with_title [] (unique_articles arts) = []
   \<and> fst (fetch_news self query m) = py_take m (unique_articles (fst (accumulated self query m)))
   \<and> subseq (fst (fetch_news self query m)) (fst (accumulated self query m))
   \<and> (\<forall>a \<in> set (fst (fetch_news self query m)).
         find (\<lambda>b. dict_get (title b) [] = dict_get (title a) [])
           (fst (accumulated self query m)) = Some a)
   \<and> (0 \<le> m \<longrightarrow> int (length (fst (fetch_news self query m))) \<le> m)
   \<and> (int (length (unique_articles (fst (accumulated self query m)))) \<le> m \<longrightarrow>
        fst (fetch_news self query m) = unique_articles (fst (accumulated self query m)))"
  using fetch_news_subseq[of self query m] fetch_news_first_seen[of _ self query m]
  by (simp add: unique_articles_def with_title_def dedup_loop_subseq dedup_loop_filter
        fetch_news_fst py_take_length py_take_all)

text \<open>The sample exchange with limit 5: both titles survive, each with its first article.\<close>

theorem fetch_news_first_seen_then_slice_witness:
  "with_title ''Budget Vote'' (unique_articles sample_articles) = [sample_articles ! 1]
   \<and> with_title ''Space Mission Launches'' (unique_articles sample_articles) = [sample_articles ! 0]
   \<and> int (length (fst (fetch_news sample_fetcher ''technology'' 5))) \<le> 5
   \<and> fst (fetch_news sample_fetcher ''technology'' 5) = [sample_articles ! 0, sample_articles ! 1]"
proof -
  have f1: "find (\<lambda>a. dict_get (title a) [] = ''Budget Vote'') sample_articles = Some (sample_articles ! 1)"
    by (simp add: sample_articles_def sample_items_def guardian_article_def dict_get_def Let_def)
  have f2: "find (\<lambda>a. dict_get (title a) [] = ''Space Mission Launches'') sample_articles = Some (sample_articles ! 0)"
    by (simp add: sample_articles_def sample_items_def guardian_article_def dict_get_def Let_def)
  have len: "int (length (unique_articles (fst (accumulated sample_fetcher ''technology'' 5)))) \<le> 5"
    by (simp add: sample_accumulated_5 sample_unique)
  note inst = fetch_news_first_seen_then_slice [of sample_articles sample_fetcher "''technology''" 5]
  from inst have a: "\<forall>t. t \<noteq> [] \<longrightarrow>
          with_title t (unique_articles sample_articles) =
            (case find (\<lambda>a. dict_get (title a) [] = t) sample_articles of None \<Rightarrow> [] | Some a \<Rightarrow> [a])"
    by blast
  from inst have "(0::int) \<le> 5 \<longrightarrow> int (length (fst (fetch_news sample_fetcher ''technology'' 5))) \<le> 5"
    by blast
  then have b: "int (length (fst (fetch_news sample_fetcher ''technology'' 5))) \<le> 5"
    by simp
  from inst len have c: "fst (fetch_news sample_fetcher ''technology'' 5)
      = unique_articles (fst (accumulated sample_fetcher ''technology'' 5))"
    by blast
  have a1: "with_title ''Budget Vote'' (unique_articles sample_articles) = [sample_articles ! 1]"
    using a[rule_format, of "''Budget Vote''"] f1 by simp
  have a2: "with_title ''Space Mission Launches'' (unique_articles sample_articles) = [sample_articles ! 0]"
    using a[rule_format, of "''Space Mission Launches''"] f2 by simp
  show ?thesis using a1 a2 b c by (simp add: sample_accumulated_5 sample_unique)
qed

text \<open>
  C1 as stated fails. With limit 1 the title \<^verbatim>\<open>Budget Vote\<close> is fetched and has no article in
  the output; with limit \<^verbatim>\<open>-1\<close> the output has one article, more than the limit.
\<close>

theorem fetch_news_one_per_title_counterexample:
  "with_title ''Budget Vote'' (fst (accumulated sample_fetcher ''technology'' 1)) \<noteq> []
   \<and> with_title ''Budget Vote'' (fst (fetch_news sample_fetcher ''technology'' 1)) = []
   \<and> \<not> int (length (fst (fetch_news sample_fetcher ''technology'' (- 1)))) \<le> - 1"
proof -
  have t: "dict_get (title (sample_articles ! 0)) [] = ''Space Mission Launches''"
          "dict_get (title (sample_articles ! 1)) [] = ''Budget Vote''"
    by (simp_all add: sample_articles_def sample_items_def guardian_article_def dict_get_def Let_def)
  have w: "with_title ''Budget Vote'' sample_articles \<noteq> []"
    by (simp add: with_title_def sample_articles_def sample_items_def guardian_article_def dict_get_def Let_def)
  have o1: "fst (fetch_news sample_fetcher ''technology'' 1) = [sample_articles ! 0]"
    by (simp add: fetch_news_fst sample_accumulated_1 sample_unique py_take_def)
  have o2: "fst (fetch_news sample_fetcher ''technology'' (- 1)) = [sample_articles ! 0]"
    by (simp add: fetch_news_fst sample_accumulated_neg sample_unique py_take_def)
  show ?thesis using w t by (simp add: o1 o2 sample_accumulated_1 with_title_def)
qed

text \<open>
  C10. Every article of the output of \<^verbatim>\<open>fetch_news\<close> has a non-empty title, the titles of
  the output are pairwise distinct, and a fetched article whose title is missing or empty
  is not in the output.
\<close>

theorem fetch_news_titles_nonempty_distinct:
  "(\<forall>a \<in> set (fst (fetch_news self query m)). \<exists>t. title a = Some t \<and> t \<noteq> [])
   \<and> distinct (map title (fst (fetch_news self query m)))
   \<and> (\<forall>a \<in> set (fst (accumulated self query m)).
         title a = None \<or> title a = Some [] \<longrightarrow> a \<notin> set (fst (fetch_news self query m)))"
proof -
  let ?arts = "fst (accumulated self query m)"
  let ?out = "fst (fetch_news self query m)"
  have sub: "set ?out \<subseteq> set (dedup_loop ?arts {} [])"
    using py_take_set by (simp add: fetch_news_fst unique_articles_def)
  have ne: "\<And>a. a \<in> set ?out \<Longrightarrow> dict_get (title a) [] \<noteq> []"
    using sub dedup_loop_titles by blast
  have some: "\<And>a. a \<in> set ?out \<Longrightarrow> \<exists>t. title a = Some t \<and> t \<noteq> []"
  proof -
    fix a assume "a \<in> set ?out"
    then have "dict_get (title a) [] \<noteq> []" by (rule ne)
    then show "\<exists>t. title a = Some t \<and> t \<noteq> []"
      by (cases "title a") (simp_all add: dict_get_def)
  qed
  have d: "distinct (map (\<lambda>a. dict_get (title a) []) ?out)"
    by (simp add: fetch_news_fst unique_articles_def py_take_distinct dedup_loop_distinct)
  have "map (\<lambda>a. dict_get (title a) []) ?out = map (\<lambda>v. dict_get v []) (map title ?out)"
    by simp
  with d have d': "distinct (map title ?out)"
    by (metis distinct_map)
  have gone: "\<And>a. title a = None \<or> title a = Some [] \<Longrightarrow> a \<notin> set ?out"
  proof
    fix a assume t: "title a = None \<or> title a = Some []" and "a \<in> set ?out"
    then have "dict_get (title a) [] \<noteq> []" using ne by blast
    with t show False by (auto simp add: dict_get_def)
  qed
  show ?thesis using some d' gone by blast
qed

text \<open>The sample exchange: the article with the empty title is fetched and dropped.\<close>

theorem fetch_news_titles_nonempty_distinct_witness:
  "title (sample_articles ! 3) = Some []
   \<and> sample_articles ! 3 \<in> set (fst (accumulated sample_fetcher ''technology'' 5))
   \<and> sample_articles ! 3 \<notin> set (fst (fetch_news sample_fetcher ''technology'' 5))
   \<and> sample_articles ! 0 \<in> set (fst (fetch_news sample_fetcher ''technology'' 5))
   \<and> title (sample_articles ! 0) = Some ''Space Mission Launches''
   \<and> distinct (map title (fst (fetch_news sample_fetcher ''technology'' 5)))"
proof -
  have t3: "title (sample_articles ! 3) = Some []"
    by (simp add: sample_articles_def sample_items_def guardian_article_def dict_get_def Let_def)
  have t0: "title (sample_articles ! 0) = Some ''Space Mission Launches''"
    by (simp add: sample_articles_def sample_items_def guardian_article_def dict_get_def Let_def)
  have m3: "sample_articles ! 3 \<in> set (fst (accumulated sample_fetcher ''technology'' 5))"
    by (simp add: sample_accumulated_5 sample_articles_def sample_items_def)
  have m0: "sample_articles ! 0 \<in> set (fst (fetch_news sample_fetcher ''technology'' 5))"
    by (simp add: fetch_news_fst sample_accumulated_5 sample_unique py_take_def)
  note inst = fetch_news_titles_nonempty_distinct [of sample_fetcher "''technology''" 5]
  from inst m3 t3 have "sample_articles ! 3 \<notin> set (fst (fetch_news sample_fetcher ''technology'' 5))"
    by blast
  moreover from inst have "distinct (map title (fst (fetch_news sample_fetcher ''technology'' 5)))"
    by blast
  ultimately show ?thesis using t3 t0 m3 m0 by blast
qed

text \<open>
  C3. The specification's invariant, that \<^verbatim>\<open>has_full_content\<close> true implies a non-empty
  content for every article of a succeeding fetch, does not hold of the Guardian adapter,
  which sets the flag on every article and takes the empty string for a missing
  \<^verbatim>\<open>bodyText\<close>. The second item of the sample response has no \<^verbatim>\<open>fields\<close>: the fetch succeeds,
  its article carries the flag and an empty content, \<^verbatim>\<open>has_full_article\<close> reports full text
  for it, and \<^verbatim>\<open>get_full_text\<close>, which looks at the content as well, reports none.
\<close>

theorem guardian_full_flag_with_empty_content:
  "fetch_from_guardian sample_fetcher ''technology'' 5
     = (Inr sample_articles, [guardian_request sample_fetcher ''technology'' 5])
   \<and> has_full_content (sample_articles ! 1) = Some True
   \<and> content (sample_articles ! 1) = Some []
   \<and> has_full_article (sample_articles ! 1) = True
   \<and> fst (get_full_text (sample_articles ! 1)) = False"
proof -
  have run: "fetch_from_guardian sample_fetcher ''technology'' 5
     = (Inr sample_articles, [guardian_request sample_fetcher ''technology'' 5])"
    by (simp add: fetch_from_guardian_def sample_fetcher_def sample_articles_def dict_get_def Let_def)
  have f: "has_full_content (sample_articles ! 1) = Some True"
    and c: "content (sample_articles ! 1) = Some []"
    by (simp_all add: sample_articles_def sample_items_def guardian_article_def dict_get_def
          Let_def no_fields_def)
  have h: "has_full_article (sample_articles ! 1) = True"
    using f by (simp add: has_full_article_def dict_get_def)
  have g: "fst (get_full_text (sample_articles ! 1)) = False"
    using f c by (simp add: get_full_text_def dict_get_def truthy_def)
  show ?thesis using run f c h g by blast
qed

section \<open>Properties of the summarizer\<close>

lemma length_cut: "0 \<le> L \<Longrightarrow> int (length (cut L s)) \<le> L + 3"
  by (simp add: cut_def py_take_def)

lemma length_rsplit_head: "length (rsplit_head s) \<le> length s"
proof -
  have "length (dropWhile (\<lambda>c. c \<noteq> CHR '' '') (rev s)) \<le> length (rev s)"
    by (rule length_dropWhile_le)
  then show ?thesis by (auto simp add: rsplit_head_def)
qed

lemma score_each_fst: "fst ` set (score_each fs freq tw i ss) \<subseteq> set ss"
  by (induction ss arbitrary: i) (auto simp add: Let_def)

lemma set_sorted_reverse: "set (sorted_reverse k xs) = set xs"
  by (simp add: sorted_reverse_def)

lemma top_sentences_known:
  "x \<in> set (py_take n (sorted_reverse snd (score_sentences_advanced fs ss ttl)))
     \<Longrightarrow> fst x \<in> set ss"
proof -
  assume "x \<in> set (py_take n (sorted_reverse snd (score_sentences_advanced fs ss ttl)))"
  then have "x \<in> set (score_sentences_advanced fs ss ttl)"
    using py_take_set set_sorted_reverse by fastforce
  then show "fst x \<in> set ss"
    using score_each_fst by (fastforce simp add: score_sentences_advanced_def Let_def)
qed

lemma sorted_by_index_top:
  "\<exists>r. sorted_by_index ss (py_take n (sorted_reverse snd (score_sentences_advanced fs ss ttl))) = Inr r"
  by (simp add: sorted_by_index_def list_all_iff top_sentences_known)

lemma length_long_cut:
  "0 \<le> L \<Longrightarrow>
   int (length (if L < int (length s) then rsplit_head (py_take L s) @ ''...'' else s)) \<le> L + 3"
proof -
  assume L: "0 \<le> L"
  have "length (rsplit_head (py_take L s)) \<le> length (py_take L s)"
    by (rule length_rsplit_head)
  also have "int (length (py_take L s)) \<le> L"
    using L by (simp add: py_take_def)
  finally show ?thesis by simp
qed

text \<open>
  C2, as the code has it. For every article, every \<^verbatim>\<open>max_sentences\<close> and every \<^verbatim>\<open>max_length\<close> that
  is not negative, \<^verbatim>\<open>summarize\<close> raises nothing and returns a string of length at most
  \<^verbatim>\<open>max_length\<close> plus the three characters of the ellipsis, on every path and whatever the
  scores are.
\<close>

theorem summarize_bounded:
  "0 \<le> max_length \<longrightarrow>
     (\<exists>s. summarize final_score a max_sentences max_length = Inr s
          \<and> int (length s) \<le> max_length + 3)"
proof
  assume L: "0 \<le> max_length"
  let ?ss = "split_into_sentences (full_text a)"
  obtain r where r: "sorted_by_index ?ss
      (py_take max_sentences (sorted_reverse snd
         (score_sentences_advanced final_score ?ss (dict_get (title a) [])))) = Inr r"
    using sorted_by_index_top by blast
  show "\<exists>s. summarize final_score a max_sentences max_length = Inr s
          \<and> int (length s) \<le> max_length + 3"
    using L r length_cut[OF L] length_long_cut[OF L, of "join (map fst r)"]
    by (simp add: summarize_def Let_def)
qed

lemma headline_text: "full_text headline_only = ''AI. . ''"
  by (simp add: full_text_def headline_only_def blank_article_def dict_get_def)

lemma fragments_length: "length (full_text fragments) = 119"
  by (simp add: full_text_def fragments_def blank_article_def dict_get_def)

lemma fragments_sentences: "split_into_sentences (full_text fragments) = []"
  by (simp add: split_into_sentences_def full_text_def fragments_def blank_article_def dict_get_def
        is_ender_def strip_def is_space_def)

lemma fragments_description:
  "dict_get (description fragments) [] =
     ''Short one. Tiny two. Small three. Brief four. Little five. Fast six. Quick seven. Eight now. Nine go. Ten end.''"
  by (simp add: fragments_def blank_article_def dict_get_def)

lemma two_sentences_length: "length (full_text two_sentences) = 103"
  by (simp add: full_text_def two_sentences_def blank_article_def dict_get_def)

lemma two_sentences_split:
  "split_into_sentences (full_text two_sentences) =
     [''Scientists map the deep ocean floor'',
      ''A survey ship spent nine months charting trenches in the Pacific'']"
  by (simp add: split_into_sentences_def full_text_def two_sentences_def blank_article_def
        dict_get_def is_ender_def strip_def is_space_def)

text \<open>The scores of the two sentences, in exact arithmetic.\<close>

lemma two_sentences_scores:
  "score_sentences_advanced exact_score
     [''Scientists map the deep ocean floor'',
      ''A survey ship spent nine months charting trenches in the Pacific'']
     ''Scientists map the deep ocean floor'' =
   [(''Scientists map the deep ocean floor'', 29 / 6),
    (''A survey ship spent nine months charting trenches in the Pacific'', 43 / 18)]"
  by code_simp

lemma two_sentences_title: "dict_get (title two_sentences) [] = ''Scientists map the deep ocean floor''"
  by (simp add: two_sentences_def blank_article_def dict_get_def)

lemma two_sentences_top:
  "py_take 1 (sorted_reverse snd
     [(''Scientists map the deep ocean floor'', 29 / 6 :: rat),
      (''A survey ship spent nine months charting trenches in the Pacific'', 43 / 18)])
   = [(''Scientists map the deep ocean floor'', 29 / 6)]"
  by (simp add: py_take_def sorted_reverse_def)

lemma two_sentences_ordered:
  "sorted_by_index
     [''Scientists map the deep ocean floor'',
      ''A survey ship spent nine months charting trenches in the Pacific'']
     [(''Scientists map the deep ocean floor'', 29 / 6 :: rat)]
   = Inr [(''Scientists map the deep ocean floor'', 29 / 6)]"
  by (simp add: sorted_by_index_def)

lemma two_sentences_cut:
  "rsplit_head (py_take 30 ''Scientists map the deep ocean floor'') = ''Scientists map the deep ocean''"
  by (simp add: py_take_def rsplit_head_def)

lemma two_sentences_scored_run:
  "summarize exact_score two_sentences 1 30 = Inr ''Scientists map the deep ocean...''"
  by (simp add: summarize_def two_sentences_length two_sentences_split two_sentences_title
        two_sentences_scores two_sentences_top two_sentences_ordered two_sentences_cut)

text \<open>
  Two sentences of which one is wanted, in thirty characters: the scored path, cut at the
  last space before the limit.
\<close>

theorem summarize_bounded_witness:
  "(0::int) \<le> 30
   \<and> summarize exact_score two_sentences 1 30 = Inr ''Scientists map the deep ocean...''
   \<and> int (length ''Scientists map the deep ocean...'') = 32
   \<and> (\<exists>s. summarize exact_score two_sentences 1 30 = Inr s \<and> int (length s) \<le> 30 + 3)"
proof -
  have "(0::int) \<le> 30" by simp
  with summarize_bounded [where a = two_sentences and final_score = exact_score
      and max_sentences = 1 and max_length = 30]
  have "\<exists>s. summarize exact_score two_sentences 1 30 = Inr s \<and> int (length s) \<le> 30 + 3"
    by blast
  then show ?thesis using two_sentences_scored_run by simp
qed

text \<open>
  C2 as stated fails for a negative \<^verbatim>\<open>max_length\<close>: the slice \<^verbatim>\<open>[:-1]\<close> drops one character and
  the result has eight characters, more than \<^verbatim>\<open>-1 + 3\<close>.
\<close>

theorem summarize_bounded_counterexample:
  "summarize exact_score headline_only 3 (- 1) = Inr ''AI. ....''
   \<and> \<not> int (length ''AI. ....'') \<le> - 1 + 3"
  by (simp add: summarize_def headline_text cut_def py_take_def)

text \<open>
  C8. For every article whose blob, the title then \<^verbatim>\<open>". "\<close> then the description then
  \<^verbatim>\<open>". "\<close> then the content, a missing field counting as empty, has fewer than 100
  characters, \<^verbatim>\<open>summarize\<close> returns the blob itself when it fits in \<^verbatim>\<open>max_length\<close>, and otherwise
  its slice \<^verbatim>\<open>[:max_length]\<close>, the first \<^verbatim>\<open>max_length\<close> characters for a limit that is not
  negative, followed by the ellipsis; neither the sentences nor the scores enter the
  result.
\<close>

theorem summarize_short_text:
  "(let blob = dict_get (title a) [] @ ''. '' @ dict_get (description a) [] @ ''. ''
                 @ dict_get (content a) []
    in length blob < 100 \<longrightarrow>
         summarize final_score a max_sentences max_length =
           Inr (if int (length blob) \<le> max_length then blob
                else py_take max_length blob @ ''...'')
         \<and> (0 \<le> max_length \<longrightarrow> py_take max_length blob = take (nat max_length) blob))"
  by (simp add: Let_def summarize_def full_text_def cut_def py_take_def)

lemma brief_blob:
  "dict_get (title brief) [] @ ''. '' @ dict_get (description brief) [] @ ''. ''
     @ dict_get (content brief) [] = ''Rain. Wet week. Bring a coat''"
  by (simp add: brief_def blank_article_def dict_get_def)

lemma headline_blob:
  "dict_get (title headline_only) [] @ ''. '' @ dict_get (description headline_only) [] @ ''. ''
     @ dict_get (content headline_only) [] = ''AI. . ''"
  by (simp add: headline_only_def blank_article_def dict_get_def)

text \<open>
  An article with all three fields and a headline without description and content, with
  room and without.
\<close>

theorem summarize_short_text_witness:
  "length ''Rain. Wet week. Bring a coat'' < 100
   \<and> summarize exact_score brief 3 250 = Inr ''Rain. Wet week. Bring a coat''
   \<and> summarize exact_score brief 3 10 = Inr ''Rain. Wet ...''
   \<and> summarize exact_score headline_only 3 250 = Inr ''AI. . ''
   \<and> summarize exact_score headline_only 3 2 = Inr ''AI...''"
proof -
  from summarize_short_text [where a = brief and final_score = exact_score
      and max_sentences = 3 and max_length = 250]
  have a: "summarize exact_score brief 3 250 = Inr ''Rain. Wet week. Bring a coat''"
    unfolding brief_blob by (simp add: Let_def)
  from summarize_short_text [where a = brief and final_score = exact_score
      and max_sentences = 3 and max_length = 10]
  have b: "summarize exact_score brief 3 10 = Inr ''Rain. Wet ...''"
    unfolding brief_blob by (simp add: Let_def py_take_def)
  from summarize_short_text [where a = headline_only and final_score = exact_score
      and max_sentences = 3 and max_length = 250]
  have c: "summarize exact_score headline_only 3 250 = Inr ''AI. . ''"
    unfolding headline_blob by (simp add: Let_def)
  from summarize_short_text [where a = headline_only and final_score = exact_score
      and max_sentences = 3 and max_length = 2]
  have d: "summarize exact_score headline_only 3 2 = Inr ''AI...''"
    unfolding headline_blob by (simp add: Let_def py_take_def)
  show ?thesis using a b c d by simp
qed

text \<open>
  C4, as the code has it. For every article whose text has at least 100 characters: when
  at least one sentence survives the length filter and at most \<^verbatim>\<open>max_sentences\<close> do,
  \<^verbatim>\<open>summarize\<close> returns the surviving sentences joined by single spaces, cut to
  \<^verbatim>\<open>max_length\<close> with the ellipsis when longer; when no sentence survives it returns the
  description, cut the same way.
\<close>

theorem summarize_few_sentences:
  "(100 \<le> length (full_text a)
      \<and> split_into_sentences (full_text a) \<noteq> []
      \<and> int (length (split_into_sentences (full_text a))) \<le> max_sentences \<longrightarrow>
        summarize final_score a max_sentences max_length =
          Inr (cut max_length (join (split_into_sentences (full_text a)))))
   \<and> (100 \<le> length (full_text a) \<and> split_into_sentences (full_text a) = [] \<longrightarrow>
        summarize final_score a max_sentences max_length =
          Inr (cut max_length (dict_get (description a) [])))
   \<and> cut max_length s =
        (if int (length s) \<le> max_length then s else py_take max_length s @ ''...'')"
  by (simp add: summarize_def Let_def cut_def)

text \<open>Two surviving sentences, and ten fragments of which none survives.\<close>

theorem summarize_few_sentences_witness:
  "100 \<le> length (full_text two_sentences)
   \<and> int (length (split_into_sentences (full_text two_sentences))) \<le> 3
   \<and> summarize exact_score two_sentences 3 50
       = Inr ''Scientists map the deep ocean floor A survey ship ...''
   \<and> 100 \<le> length (full_text fragments)
   \<and> split_into_sentences (full_text fragments) = []
   \<and> summarize exact_score fragments 3 250 = Inr (dict_get (description fragments) [])"
proof -
  note inst1 = summarize_few_sentences [where a = two_sentences and final_score = exact_score
      and max_sentences = 3 and max_length = 50 and s = "[]"]
  note inst2 = summarize_few_sentences [where a = fragments and final_score = exact_score
      and max_sentences = 3 and max_length = 250 and s = "[]"]
  have h1: "100 \<le> length (full_text two_sentences)
      \<and> split_into_sentences (full_text two_sentences) \<noteq> []
      \<and> int (length (split_into_sentences (full_text two_sentences))) \<le> 3"
    by (simp add: two_sentences_length two_sentences_split)
  have h2: "100 \<le> length (full_text fragments) \<and> split_into_sentences (full_text fragments) = []"
    by (simp add: fragments_length fragments_sentences)
  from inst1 h1 have "summarize exact_score two_sentences 3 50 =
          Inr (cut 50 (join (split_into_sentences (full_text two_sentences))))"
    by blast
  then have r1: "summarize exact_score two_sentences 3 50
       = Inr ''Scientists map the deep ocean floor A survey ship ...''"
    by (simp add: two_sentences_split cut_def py_take_def)
  from inst2 h2 have "summarize exact_score fragments 3 250 =
          Inr (cut 250 (dict_get (description fragments) []))"
    by blast
  then have r2: "summarize exact_score fragments 3 250 = Inr (dict_get (description fragments) [])"
    by (simp add: fragments_description cut_def)
  show ?thesis using h1 h2 r1 r2 by blast
qed

text \<open>
  C4 as stated fails when no sentence survives: the join of no sentence is empty, and
  \<^verbatim>\<open>summarize\<close> returns the description.
\<close>

theorem summarize_no_sentence_counterexample:
  "100 \<le> length (full_text fragments)
   \<and> int (length (split_into_sentences (full_text fragments))) \<le> 3
   \<and> cut 250 (join (split_into_sentences (full_text fragments))) = []
   \<and> summarize exact_score fragments 3 250 =
       Inr ''Short one. Tiny two. Small three. Brief four. Little five. Fast six. Quick seven. Eight now. Nine go. Ten end.''"
  by (simp add: summarize_def fragments_length fragments_sentences fragments_description cut_def)

section \<open>Properties of the classifier\<close>

lemma starts_with_iff: "starts_with k s \<longleftrightarrow> (\<exists>q. s = k @ q)"
  by (induction k s rule: starts_with.induct) auto

lemma str_in_iff: "str_in k s \<longleftrightarrow> (\<exists>p q. s = p @ k @ q)"
proof (induction s)
  case Nil
  show ?case by simp
next
  case (Cons c cs)
  show ?case
  proof
    assume "str_in k (c # cs)"
    then consider "starts_with k (c # cs)" | "str_in k cs" by auto
    then show "\<exists>p q. c # cs = p @ k @ q"
    proof cases
      case 1
      then obtain q where "c # cs = k @ q" using starts_with_iff by blast
      then have "c # cs = [] @ k @ q" by simp
      then show ?thesis by blast
    next
      case 2
      then obtain p q where "cs = p @ k @ q" using Cons.IH by blast
      then have "c # cs = (c # p) @ k @ q" by simp
      then show ?thesis by blast
    qed
  next
    assume "\<exists>p q. c # cs = p @ k @ q"
    then obtain p q where pq: "c # cs = p @ k @ q" by blast
    show "str_in k (c # cs)"
    proof (cases p)
      case Nil
      with pq have "starts_with k (c # cs)" using starts_with_iff by auto
      then show ?thesis by simp
    next
      case (Cons d p')
      with pq have "cs = p' @ k @ q" by simp
      then have "str_in k cs" using Cons.IH by blast
      then show ?thesis by simp
    qed
  qed
qed

lemma str_in_lower: "str_in k s \<Longrightarrow> str_in (lower k) (lower s)"
proof -
  assume "str_in k s"
  then obtain p q where "s = p @ k @ q" using str_in_iff by blast
  then have "lower s = lower p @ lower k @ lower q" by (simp add: lower_def)
  then show ?thesis using str_in_iff by blast
qed

lemma str_in_prefix: "str_in k s \<Longrightarrow> str_in k (s @ t)"
proof -
  assume "str_in k s"
  then obtain p q where "s = p @ k @ q" using str_in_iff by blast
  then have "s @ t = p @ k @ (q @ t)" by simp
  then show ?thesis using str_in_iff by blast
qed

lemma sum_list_zero: "(\<forall>k \<in> set ks. f k = (0::nat)) \<Longrightarrow> sum_list (map f ks) = 0"
  by (induction ks) auto

lemma keyword_loop_sum:
  "keyword_loop ks text ttl s = s + sum_list (map (weight text ttl) ks)"
  by (induction ks arbitrary: s) (simp_all add: weight_def)

lemma lower_Tutorial: "lower ''Tutorial'' = ''tutorial''"
  by code_simp

lemma tutorial_keyword: "''tutorial'' \<in> set educational_keywords"
  by (simp add: educational_keywords_def)

lemma starts_with_before_space:
  "CHR '' '' \<notin> set k \<Longrightarrow> starts_with k (x @ CHR '' '' # y) = starts_with k x"
  by (induction k x rule: starts_with.induct) auto

lemma str_in_across_space:
  "CHR '' '' \<notin> set k \<Longrightarrow> k \<noteq> [] \<Longrightarrow>
     str_in k (x @ CHR '' '' # y) \<longleftrightarrow> str_in k x \<or> str_in k y"
proof (induction x)
  case Nil
  then have "\<not> starts_with k (CHR '' '' # y)" by (cases k) auto
  then show ?case using Nil by simp
next
  case (Cons c x)
  have "starts_with k (c # x @ CHR '' '' # y) = starts_with k (c # x)"
    using starts_with_before_space[OF Cons.prems(1), of "c # x" y] by simp
  then show ?case using Cons by auto
qed

lemma keywords_plain:
  "k \<in> set educational_keywords \<Longrightarrow> CHR '' '' \<notin> set k \<and> k \<noteq> []"
  by (auto simp add: educational_keywords_def)

lemma keyword_in_fields:
  "k \<in> set educational_keywords \<Longrightarrow>
     str_in k (x @ '' '' @ y @ '' '' @ z) \<longleftrightarrow> str_in k x \<or> str_in k y \<or> str_in k z"
proof -
  assume "k \<in> set educational_keywords"
  then have p: "CHR '' '' \<notin> set k" "k \<noteq> []" using keywords_plain by blast+
  have "str_in k (x @ CHR '' '' # (y @ CHR '' '' # z)) \<longleftrightarrow> str_in k x \<or> str_in k (y @ CHR '' '' # z)"
    using p by (rule str_in_across_space)
  also have "str_in k (y @ CHR '' '' # z) \<longleftrightarrow> str_in k y \<or> str_in k z"
    using p by (rule str_in_across_space)
  finally show ?thesis by simp
qed

lemma lowered_text_fields:
  "lowered_text a =
     lower (dict_get (title a) []) @ '' '' @ lower (dict_get (description a) []) @ '' ''
       @ lower (dict_get (content a) [])"
  by (simp add: lowered_text_def)

text \<open>
  C7. For every article, \<^verbatim>\<open>should_show_learn_button\<close> returns true if and only if the sum, over
  the educational keywords that occur in the text made of the lowercased title, the
  lowercased description and the lowercased content, joined by single spaces, a missing
  field counting as empty, of 2 when the keyword occurs in the lowercased title and of 1
  otherwise, is at least 2. An educational keyword occurs in that text exactly when it
  occurs in one of the three lowercased fields. The function returns true when the title
  contains \<^verbatim>\<open>Tutorial\<close>, and false when no educational keyword occurs in the text. To occur
  is to be a contiguous piece.
\<close>

theorem learn_button_iff_score:
  "(should_show_learn_button a \<longleftrightarrow>
      2 \<le> (\<Sum>k\<leftarrow>educational_keywords.
              if str_in k
                   (lower (dict_get (title a) []) @ '' '' @ lower (dict_get (description a) [])
                      @ '' '' @ lower (dict_get (content a) []))
              then (if str_in k (lower (dict_get (title a) [])) then 2 else 1)
              else (0::nat)))
   \<and> (\<forall>k \<in> set educational_keywords.
         str_in k
           (lower (dict_get (title a) []) @ '' '' @ lower (dict_get (description a) [])
              @ '' '' @ lower (dict_get (content a) []))
         \<longleftrightarrow> str_in k (lower (dict_get (title a) []))
              \<or> str_in k (lower (dict_get (description a) []))
              \<or> str_in k (lower (dict_get (content a) [])))
   \<and> (str_in ''Tutorial'' (dict_get (title a) []) \<longrightarrow> should_show_learn_button a)
   \<and> ((\<forall>k \<in> set educational_keywords.
          \<not> str_in k
              (lower (dict_get (title a) []) @ '' '' @ lower (dict_get (description a) [])
                 @ '' '' @ lower (dict_get (content a) []))) \<longrightarrow>
        \<not> should_show_learn_button a)
   \<and> (str_in k s \<longleftrightarrow> (\<exists>p q. s = p @ k @ q))"
proof -
  let ?t = "lower (dict_get (title a) [])"
  let ?text = "?t @ '' '' @ lower (dict_get (description a) []) @ '' ''
       @ lower (dict_get (content a) [])"
  let ?w = "weight ?text ?t"
  have lt: "lowered_text a = ?text" by (rule lowered_text_fields)
  have score: "educational_score a = sum_list (map ?w educational_keywords)"
    by (simp add: educational_score_def keyword_loop_sum lt)
  have w: "?w = (\<lambda>k. if str_in k ?text then (if str_in k ?t then 2 else 1) else 0)"
    by (rule ext) (simp add: weight_def)
  have c1: "should_show_learn_button a \<longleftrightarrow>
      2 \<le> (\<Sum>k\<leftarrow>educational_keywords.
              if str_in k ?text then (if str_in k ?t then 2 else 1) else (0::nat))"
    using score w by (simp add: should_show_learn_button_def)
  have c2: "should_show_learn_button a" if "str_in ''Tutorial'' (dict_get (title a) [])"
  proof -
    from that have t: "str_in ''tutorial'' ?t"
      using str_in_lower lower_Tutorial by fastforce
    then have "str_in ''tutorial'' ?text" by (rule str_in_prefix)
    with t have "?w ''tutorial'' = 2" by (simp add: weight_def)
    moreover have "?w ''tutorial'' \<le> sum_list (map ?w educational_keywords)"
      using tutorial_keyword by (simp add: member_le_sum_list)
    ultimately show ?thesis using score by (simp add: should_show_learn_button_def)
  qed
  have c3: "\<not> should_show_learn_button a"
    if "\<forall>k \<in> set educational_keywords. \<not> str_in k ?text"
  proof -
    from that have "\<forall>k \<in> set educational_keywords. ?w k = 0" by (simp add: weight_def)
    then have "sum_list (map ?w educational_keywords) = 0" by (rule sum_list_zero)
    with score have "educational_score a = 0" by simp
    then show ?thesis by (simp add: should_show_learn_button_def)
  qed
  have c4: "\<forall>k \<in> set educational_keywords.
         str_in k ?text
         \<longleftrightarrow> str_in k ?t \<or> str_in k (lower (dict_get (description a) []))
              \<or> str_in k (lower (dict_get (content a) []))"
    using keyword_in_fields by blast
  show ?thesis using c1 c2 c3 c4 str_in_iff by blast
qed

lemma tutorial_fields:
  "dict_get (title tutorial_article) [] = ''Python Tutorial for Beginners''"
  by (simp add: tutorial_article_def blank_article_def dict_get_def)

lemma headline_fields:
  "lower (dict_get (title headline_only) []) = ''ai''"
  "lower (dict_get (description headline_only) []) = []"
  "lower (dict_get (content headline_only) []) = []"
  by code_simp+

lemma description_only_fields:
  "lower (dict_get (title description_only) []) = ''weekend plans''"
  "lower (dict_get (description description_only) []) = ''an online course about programming''"
  "lower (dict_get (content description_only) []) = []"
  by code_simp+

lemma content_only_fields:
  "lower (dict_get (title content_only) []) = ''notes''"
  "lower (dict_get (description content_only) []) = []"
  "lower (dict_get (content content_only) []) = ''a physics lesson''"
  by code_simp+

lemma one_mention_fields:
  "lower (dict_get (title one_mention) []) = ''jazz''"
  "lower (dict_get (description one_mention) []) = ''a history of the trumpet''"
  "lower (dict_get (content one_mention) []) = []"
  by code_simp+

lemma sum_description_only:
  "(\<Sum>k\<leftarrow>educational_keywords.
      if str_in k ''weekend plans an online course about programming ''
      then (if str_in k ''weekend plans'' then 2 else 1)
      else (0::nat)) = 2"
  by (simp add: educational_keywords_def)

lemma sum_content_only:
  "(\<Sum>k\<leftarrow>educational_keywords.
      if str_in k ''notes  a physics lesson''
      then (if str_in k ''notes'' then 2 else 1)
      else (0::nat)) = 2"
  by (simp add: educational_keywords_def)

lemma sum_one_mention:
  "(\<Sum>k\<leftarrow>educational_keywords.
      if str_in k ''jazz a history of the trumpet ''
      then (if str_in k ''jazz'' then 2 else 1)
      else (0::nat)) = 1"
  by (simp add: educational_keywords_def)

text \<open>
  A tutorial; a headline without any keyword; two keywords in the description alone; two
  in the content alone; a single keyword outside the title.
\<close>

theorem learn_button_iff_score_witness:
  "str_in ''Tutorial'' (dict_get (title tutorial_article) [])
   \<and> should_show_learn_button tutorial_article
   \<and> list_all (\<lambda>k. \<not> str_in k ''ai  '') educational_keywords
   \<and> \<not> should_show_learn_button headline_only
   \<and> should_show_learn_button description_only
   \<and> should_show_learn_button content_only
   \<and> \<not> should_show_learn_button one_mention"
proof -
  have h1: "str_in ''Tutorial'' (dict_get (title tutorial_article) [])"
    by (simp add: tutorial_fields)
  note T1 = learn_button_iff_score [where a = tutorial_article]
  have "str_in ''Tutorial'' (dict_get (title tutorial_article) []) \<longrightarrow>
          should_show_learn_button tutorial_article"
    using T1 [THEN conjunct2, THEN conjunct2] by (rule conjunct1)
  then have r1: "should_show_learn_button tutorial_article" using h1 by (rule mp)
  have w2: "list_all (\<lambda>k. \<not> str_in k ''ai  '') educational_keywords"
    by (simp add: educational_keywords_def)
  then have "\<forall>k \<in> set educational_keywords. \<not> str_in k ''ai  ''"
    by (simp only: list_all_iff)
  then have h2: "\<forall>k \<in> set educational_keywords.
          \<not> str_in k
              (lower (dict_get (title headline_only) []) @ '' ''
                 @ lower (dict_get (description headline_only) [])
                 @ '' '' @ lower (dict_get (content headline_only) []))"
    by (simp only: headline_fields append_Cons append_Nil)
  note T2 = learn_button_iff_score [where a = headline_only]
  have "(\<forall>k \<in> set educational_keywords.
          \<not> str_in k
              (lower (dict_get (title headline_only) []) @ '' ''
                 @ lower (dict_get (description headline_only) [])
                 @ '' '' @ lower (dict_get (content headline_only) []))) \<longrightarrow>
        \<not> should_show_learn_button headline_only"
    using T2 [THEN conjunct2, THEN conjunct2, THEN conjunct2] by (rule conjunct1)
  then have r2: "\<not> should_show_learn_button headline_only" using h2 by (rule mp)
  have "should_show_learn_button description_only \<longleftrightarrow>
      2 \<le> (\<Sum>k\<leftarrow>educational_keywords.
              if str_in k ''weekend plans an online course about programming ''
              then (if str_in k ''weekend plans'' then 2 else 1)
              else (0::nat))"
    using learn_button_iff_score [where a = description_only, THEN conjunct1]
    by (simp only: description_only_fields append_Cons append_Nil)
  then have r3: "should_show_learn_button description_only"
    unfolding sum_description_only by simp
  have "should_show_learn_button content_only \<longleftrightarrow>
      2 \<le> (\<Sum>k\<leftarrow>educational_keywords.
              if str_in k ''notes  a physics lesson''
              then (if str_in k ''notes'' then 2 else 1)
              else (0::nat))"
    using learn_button_iff_score [where a = content_only, THEN conjunct1]
    by (simp only: content_only_fields append_Cons append_Nil)
  then have r4: "should_show_learn_button content_only"
    unfolding sum_content_only by simp
  have "should_show_learn_button one_mention \<longleftrightarrow>
      2 \<le> (\<Sum>k\<leftarrow>educational_keywords.
              if str_in k ''jazz a history of the trumpet ''
              then (if str_in k ''jazz'' then 2 else 1)
              else (0::nat))"
    using learn_button_iff_score [where a = one_mention, THEN conjunct1]
    by (simp only: one_mention_fields append_Cons append_Nil)
  then have r5: "\<not> should_show_learn_button one_mention"
    unfolding sum_one_mention by simp
  show ?thesis by (intro conjI h1 r1 w2 r2 r3 r4 r5)
qed

section \<open>Properties of the bookmark store\<close>

lemma already_bookmarked_iff: "already_bookmarked bs a \<longleftrightarrow> (\<exists>b \<in> set bs. url b = url a)"
  by (induction bs) auto

text \<open>
  C9. For every state of the bookmark store and every article: if the value of the
  article's \<^verbatim>\<open>url\<close> key equals that of some stored bookmark, \<^verbatim>\<open>add_bookmark\<close> returns false
  and leaves the store as it is; otherwise it returns true and the new bookmark, which
  carries the article's url, is the first element of what \<^verbatim>\<open>get_bookmarks\<close> returns, before
  the bookmarks stored earlier.
\<close>

theorem add_bookmark_by_url:
  "((\<exists>b \<in> set (get_bookmarks self). url b = url a) \<longrightarrow>
      add_bookmark now self a = (False, self))
   \<and> (\<not> (\<exists>b \<in> set (get_bookmarks self). url b = url a) \<longrightarrow>
        fst (add_bookmark now self a) = True
        \<and> get_bookmarks (snd (add_bookmark now self a))
            = make_bookmark now a # get_bookmarks self
        \<and> url (make_bookmark now a) = Some (dict_get (url a) []))"
  by (simp add: add_bookmark_def get_bookmarks_def already_bookmarked_iff make_bookmark_def)

text \<open>A store of one bookmark: the same article again, then a new one.\<close>

theorem add_bookmark_by_url_witness:
  "add_bookmark ''2024-05-02T09:00:00'' sample_manager stored_article = (False, sample_manager)
   \<and> fst (add_bookmark ''2024-05-02T09:00:00'' sample_manager new_article) = True
   \<and> get_bookmarks (snd (add_bookmark ''2024-05-02T09:00:00'' sample_manager new_article))
       = [make_bookmark ''2024-05-02T09:00:00'' new_article,
          make_bookmark ''2024-05-01T12:00:00'' stored_article]"
proof -
  have g: "get_bookmarks sample_manager = [make_bookmark ''2024-05-01T12:00:00'' stored_article]"
    by (simp add: get_bookmarks_def sample_manager_def)
  have u: "url (make_bookmark ''2024-05-01T12:00:00'' stored_article) = Some ''https://gu.com/b''"
          "url stored_article = Some ''https://gu.com/b''"
          "url new_article = Some ''https://gu.com/a''"
    by (simp_all add: make_bookmark_def stored_article_def new_article_def blank_article_def dict_get_def)
  have h1: "\<exists>b \<in> set (get_bookmarks sample_manager). url b = url stored_article"
    by (simp add: g u)
  have h2: "\<not> (\<exists>b \<in> set (get_bookmarks sample_manager). url b = url new_article)"
    by (simp add: g u)
  from add_bookmark_by_url [where self = sample_manager and a = stored_article
      and now = "''2024-05-02T09:00:00''"] h1
  have r1: "add_bookmark ''2024-05-02T09:00:00'' sample_manager stored_article = (False, sample_manager)"
    by blast
  from add_bookmark_by_url [where self = sample_manager and a = new_article
      and now = "''2024-05-02T09:00:00''"] h2
  have r2: "fst (add_bookmark ''2024-05-02T09:00:00'' sample_manager new_article) = True
        \<and> get_bookmarks (snd (add_bookmark ''2024-05-02T09:00:00'' sample_manager new_article))
            = make_bookmark ''2024-05-02T09:00:00'' new_article # get_bookmarks sample_manager"
    by blast
  show ?thesis using r1 r2 by (simp add: g)
qed

section \<open>Properties of the RSS fetcher\<close>

lemma digit_code: "is_digit c \<longleftrightarrow> 48 \<le> (of_char c :: nat) \<and> (of_char c :: nat) \<le> 57"
  by (simp add: is_digit_def less_eq_char_def)

lemma nat_digit_le: "48 \<le> n \<Longrightarrow> n \<le> 57 \<Longrightarrow> n - 48 \<le> (9::nat)"
  by arith

lemma nat_digit_less: "48 \<le> n \<Longrightarrow> 48 \<le> m \<Longrightarrow> (n < m \<longleftrightarrow> n - 48 < m - (48::nat))"
  by arith

lemma nat_digit_eq: "48 \<le> n \<Longrightarrow> 48 \<le> m \<Longrightarrow> n - 48 = m - (48::nat) \<Longrightarrow> n = m"
  by arith

lemma dv_le: "is_digit c \<Longrightarrow> dv c \<le> 9"
  unfolding dv_def digit_code by (rule nat_digit_le) blast+

lemma dv_less: "is_digit c \<Longrightarrow> is_digit e \<Longrightarrow> (c < e \<longleftrightarrow> dv c < dv e)"
  unfolding dv_def digit_code less_char_def by (rule nat_digit_less) blast+

lemma dv_eq: "is_digit c \<Longrightarrow> is_digit e \<Longrightarrow> dv c = dv e \<Longrightarrow> c = e"
proof -
  assume "is_digit c" "is_digit e" "dv c = dv e"
  then have "(of_char c :: nat) = of_char e"
    unfolding dv_def digit_code using nat_digit_eq by blast
  then show "c = e" by simp
qed

lemma decimal_Cons:
  "decimal a (c # cs) = (if is_digit c then decimal (10 * a + dv c) cs else decimal a cs)"
  by (simp add: dv_def)

lemma fits_Cons:
  "fits (x # ps) s \<Longrightarrow>
     \<exists>c cs. s = c # cs \<and> (if x = CHR ''d'' then is_digit c else c = x) \<and> fits ps cs"
  by (cases s) simp_all

lemma shift_less: "a < b \<Longrightarrow> c \<le> 9 \<Longrightarrow> 10 * a + c < 10 * b + (e::nat)"
  by arith

lemma decimal_order:
  "fits p s \<Longrightarrow> fits p t \<Longrightarrow>
     (a < b \<longrightarrow> decimal a s < decimal b t) \<and> (decimal a s < decimal a t \<longleftrightarrow> s < t)"
proof (induction p arbitrary: s t a b)
  case Nil
  have "s = []" using Nil(1) by (cases s) simp_all
  moreover have "t = []" using Nil(2) by (cases t) simp_all
  ultimately show ?case by simp
next
  case (Cons x ps)
  from fits_Cons[OF Cons.prems(1)] obtain c cs where
    s: "s = c # cs" and hc: "if x = CHR ''d'' then is_digit c else c = x" and fc: "fits ps cs"
    by blast
  from fits_Cons[OF Cons.prems(2)] obtain e es where
    t: "t = e # es" and he: "if x = CHR ''d'' then is_digit e else e = x" and fe: "fits ps es"
    by blast
  note IH = Cons.IH[OF fc fe]
  note HI = Cons.IH[OF fe fc]
  show ?case
  proof (cases "is_digit c \<and> is_digit e")
    case True
    then have dc: "is_digit c" and de: "is_digit e" by blast+
    have ds: "decimal a s = decimal (10 * a + dv c) cs" for a
      unfolding s decimal_Cons using dc by simp
    have dt: "decimal a t = decimal (10 * a + dv e) es" for a
      unfolding t decimal_Cons using de by simp
    have p1: "a < b \<longrightarrow> decimal a s < decimal b t"
    proof
      assume "a < b"
      then have "10 * a + dv c < 10 * b + dv e" using dv_le[OF dc] by (rule shift_less)
      then show "decimal a s < decimal b t"
        unfolding ds dt using IH[of "10 * a + dv c" "10 * b + dv e"] by blast
    qed
    have st: "s < t \<longleftrightarrow> c < e \<or> c = e \<and> cs < es"
      unfolding s t by simp
    have p2: "decimal a s < decimal a t \<longleftrightarrow> s < t"
    proof (cases "c = e")
      case True
      then have "decimal a s < decimal a t \<longleftrightarrow> cs < es"
        unfolding ds dt using IH[of "10 * a + dv e" "10 * a + dv e"] by blast
      then show ?thesis unfolding st using True by simp
    next
      case False
      then have ne: "dv c \<noteq> dv e" using dv_eq[OF dc de] by blast
      show ?thesis
      proof (cases "c < e")
        case True
        then have "dv c < dv e" using dv_less[OF dc de] by blast
        then have "10 * a + dv c < 10 * a + dv e" by simp
        then have "decimal a s < decimal a t"
          unfolding ds dt using IH[of "10 * a + dv c" "10 * a + dv e"] by blast
        then show ?thesis unfolding st using True by blast
      next
        case ge: False
        then have "\<not> dv c < dv e" using dv_less[OF dc de] by blast
        with ne have "dv e < dv c" by simp
        then have "10 * a + dv e < 10 * a + dv c" by simp
        then have "decimal a t < decimal a s"
          unfolding ds dt using HI[of "10 * a + dv e" "10 * a + dv c"] by blast
        then have "\<not> decimal a s < decimal a t" by simp
        then show ?thesis unfolding st using ge False by blast
      qed
    qed
    show ?thesis using p1 p2 by blast
  next
    case False
    with hc he have xd: "x \<noteq> CHR ''d''" by presburger
    with hc he have cx: "c = x" and ex: "e = x" by simp_all
    have st: "s < t \<longleftrightarrow> cs < es"
      unfolding s t cx ex by simp
    show ?thesis
    proof (cases "is_digit x")
      case True
      have ds: "decimal a s = decimal (10 * a + dv x) cs" for a
        unfolding s cx decimal_Cons using True by simp
      have dt: "decimal a t = decimal (10 * a + dv x) es" for a
        unfolding t ex decimal_Cons using True by simp
      have "a < b \<longrightarrow> 10 * a + dv x < 10 * b + dv x" by simp
      then show ?thesis
        unfolding ds dt st
        using IH[of "10 * a + dv x" "10 * b + dv x"] IH[of "10 * a + dv x" "10 * a + dv x"]
        by blast
    next
      case nd: False
      have ds: "decimal a s = decimal a cs" for a
        unfolding s cx decimal_Cons using nd by simp
      have dt: "decimal a t = decimal a es" for a
        unfolding t ex decimal_Cons using nd by simp
      show ?thesis
        unfolding ds dt st using IH[of a b] IH[of a a] by blast
    qed
  qed
qed

lemma well_formed_order:
  "well_formed_date s \<Longrightarrow> well_formed_date t \<Longrightarrow> (instant s < instant t \<longleftrightarrow> s < t)"
  unfolding well_formed_date_def instant_def
  using decimal_order[of "''dddd-dd-ddTdd:dd:dd''" s t 0 0] by blast

lemma sorted_reverse_descending:
  "sorted_wrt (\<lambda>x y. key y \<le> key x) (sorted_reverse key xs)"
proof -
  have "sorted (map key (sort_key key (rev xs)))" by (rule sorted_sort_key)
  then have "sorted_wrt (\<lambda>x y. key x \<le> key y) (sort_key key (rev xs))"
    by (simp add: sorted_map)
  then show ?thesis by (simp add: sorted_reverse_def sorted_wrt_rev)
qed

lemma mset_sorted_reverse: "mset (sorted_reverse key xs) = mset xs"
  by (simp add: sorted_reverse_def)

lemma py_take_is_take: "\<exists>k. py_take n xs = take k xs"
  by (auto simp add: py_take_def)

lemma sorted_wrt_py_take: "sorted_wrt P xs \<Longrightarrow> sorted_wrt P (py_take n xs)"
proof -
  assume s: "sorted_wrt P xs"
  obtain k where "py_take n xs = take k xs" using py_take_is_take by blast
  then show ?thesis using s by (simp add: sorted_wrt_take)
qed

lemma descending_strict:
  "sorted_wrt (\<lambda>x y. key y \<le> key x) xs \<Longrightarrow> distinct (map key xs)
     \<Longrightarrow> sorted_wrt (\<lambda>x y. (key y :: 'k::linorder) < key x) xs"
proof (induction xs)
  case Nil
  show ?case by simp
next
  case (Cons a xs)
  have out: "key a \<notin> key ` set xs" using Cons.prems(2) by simp
  have le: "\<forall>y \<in> set xs. key y \<le> key a" using Cons.prems(1) by simp
  have "key y < key a" if "y \<in> set xs" for y
  proof -
    from that le have "key y \<le> key a" by simp
    moreover have "key y \<noteq> key a"
    proof
      assume "key y = key a"
      then have "key a \<in> key ` set xs" using that by (metis imageI)
      then show False using out by simp
    qed
    ultimately show ?thesis by simp
  qed
  then have hd: "\<forall>y \<in> set xs. key y < key a" by simp
  have tl: "sorted_wrt (\<lambda>x y. key y < key x) xs"
    using Cons.IH Cons.prems by simp
  show ?case using hd tl by simp
qed

lemma sorted_wrt_instants:
  assumes s: "sorted_wrt (\<lambda>x y. date_key y < date_key x) xs"
    and w: "\<forall>a \<in> set xs. well_formed_date (date_key a)"
  shows "sorted_wrt (\<lambda>x y. instant (date_key y) < instant (date_key x)) xs"
proof (rule sorted_wrt_mono_rel[OF _ s])
  fix x y
  assume x: "x \<in> set xs" and y: "y \<in> set xs" and lt: "date_key y < date_key x"
  from w x have wx: "well_formed_date (date_key x)" by simp
  from w y have wy: "well_formed_date (date_key y)" by simp
  show "instant (date_key y) < instant (date_key x)"
    using well_formed_order[OF wy wx] lt by simp
qed

text \<open>
  C6. For all collected RSS articles with pairwise distinct, well-formed \<^verbatim>\<open>published_date\<close>
  values, \<^verbatim>\<open>fetch_news\<close> of the RSS fetcher returns the slice \<^verbatim>\<open>[:max_results]\<close> of the
  collected articles sorted by \<^verbatim>\<open>published_date\<close>, a rearrangement of all of them taken
  before the cut, and both the sorted list and the output are strictly descending, as
  strings and as the instants the dates name: newest first.
\<close>

theorem rss_newest_first:
  "distinct (map date_key (rss_collected fetch_from_source query max_results))
   \<and> (\<forall>a \<in> set (rss_collected fetch_from_source query max_results).
         well_formed_date (date_key a)) \<longrightarrow>
     rss_fetch_news fetch_from_source query max_results
       = py_take max_results
           (sorted_reverse date_key (rss_collected fetch_from_source query max_results))
     \<and> mset (sorted_reverse date_key (rss_collected fetch_from_source query max_results))
         = mset (rss_collected fetch_from_source query max_results)
     \<and> sorted_wrt (\<lambda>x y. instant (date_key y) < instant (date_key x))
          (sorted_reverse date_key (rss_collected fetch_from_source query max_results))
     \<and> sorted_wrt (\<lambda>x y. date_key y < date_key x)
          (rss_fetch_news fetch_from_source query max_results)
     \<and> sorted_wrt (\<lambda>x y. instant (date_key y) < instant (date_key x))
          (rss_fetch_news fetch_from_source query max_results)"
proof
  let ?all = "rss_collected fetch_from_source query max_results"
  let ?sorted = "sorted_reverse date_key ?all"
  let ?out = "rss_fetch_news fetch_from_source query max_results"
  assume h: "distinct (map date_key ?all) \<and> (\<forall>a \<in> set ?all. well_formed_date (date_key a))"
  then have hd: "distinct (map date_key ?all)"
    and hw: "\<forall>a \<in> set ?all. well_formed_date (date_key a)" by simp_all
  have out: "?out = py_take max_results ?sorted" by (simp add: rss_fetch_news_def)
  have ms: "mset ?sorted = mset ?all" by (rule mset_sorted_reverse)
  have "mset (map date_key ?sorted) = mset (map date_key ?all)" using ms by simp
  then have "distinct (map date_key ?sorted) \<longleftrightarrow> distinct (map date_key ?all)"
    by (rule mset_eq_imp_distinct_iff)
  then have d: "distinct (map date_key ?sorted)" using hd by simp
  have desc: "sorted_wrt (\<lambda>x y. date_key y \<le> date_key x) ?sorted"
    by (rule sorted_reverse_descending)
  have str: "sorted_wrt (\<lambda>x y. date_key y < date_key x) ?sorted"
    using desc d by (rule descending_strict)
  have "set ?sorted = set ?all" using ms by (rule mset_eq_setD)
  then have w: "\<forall>a \<in> set ?sorted. well_formed_date (date_key a)" using hw by simp
  have ins: "sorted_wrt (\<lambda>x y. instant (date_key y) < instant (date_key x)) ?sorted"
    using str w by (rule sorted_wrt_instants)
  have o1: "sorted_wrt (\<lambda>x y. date_key y < date_key x) ?out"
    unfolding out using str by (rule sorted_wrt_py_take)
  have o2: "sorted_wrt (\<lambda>x y. instant (date_key y) < instant (date_key x)) ?out"
    unfolding out using ins by (rule sorted_wrt_py_take)
  show "?out = py_take max_results ?sorted \<and> mset ?sorted = mset ?all
     \<and> sorted_wrt (\<lambda>x y. instant (date_key y) < instant (date_key x)) ?sorted
     \<and> sorted_wrt (\<lambda>x y. date_key y < date_key x) ?out
     \<and> sorted_wrt (\<lambda>x y. instant (date_key y) < instant (date_key x)) ?out"
    by (intro conjI out ms ins o1 o2)
qed

lemma sample_collected:
  "rss_collected sample_feeds ''ai'' 5 =
     [dated ''Older'' ''2024-05-01T10:00:00'', dated ''Newest'' ''2024-05-03T08:30:00'',
      dated ''Middle'' ''2024-05-02T23:59:59'']"
  by (simp add: rss_collected_def rss_feeds_def sample_feeds_def)

lemma sample_collected_1:
  "rss_collected sample_feeds ''ai'' 1 =
     [dated ''Older'' ''2024-05-01T10:00:00'', dated ''Newest'' ''2024-05-03T08:30:00'']"
  by (simp add: rss_collected_def rss_feeds_def sample_feeds_def)

lemma date_key_dated: "date_key (dated t d) = d"
  by (simp add: date_key_def dated_def blank_article_def dict_get_def)

lemma sample_well_formed:
  "well_formed_date ''2024-05-01T10:00:00''" "well_formed_date ''2024-05-03T08:30:00''"
  "well_formed_date ''2024-05-02T23:59:59''"
  by (simp_all add: well_formed_date_def is_digit_def less_eq_char_def)

lemma sample_order:
  "''2024-05-01T10:00:00'' \<le> ''2024-05-03T08:30:00''"
  "''2024-05-01T10:00:00'' \<le> ''2024-05-02T23:59:59''"
  "''2024-05-02T23:59:59'' \<le> ''2024-05-03T08:30:00''"
  "\<not> ''2024-05-03T08:30:00'' \<le> ''2024-05-01T10:00:00''"
  "\<not> ''2024-05-02T23:59:59'' \<le> ''2024-05-01T10:00:00''"
  "\<not> ''2024-05-03T08:30:00'' \<le> ''2024-05-02T23:59:59''"
  by (simp_all add: less_char_def less_eq_char_def)

lemma sample_sorted:
  "sorted_reverse date_key (rss_collected sample_feeds ''ai'' 5) =
     [dated ''Newest'' ''2024-05-03T08:30:00'', dated ''Middle'' ''2024-05-02T23:59:59'',
      dated ''Older'' ''2024-05-01T10:00:00'']"
  by (simp add: sample_collected sorted_reverse_def date_key_dated sample_order)

lemma sample_sorted_1:
  "sorted_reverse date_key (rss_collected sample_feeds ''ai'' 1) =
     [dated ''Newest'' ''2024-05-03T08:30:00'', dated ''Older'' ''2024-05-01T10:00:00'']"
  by (simp add: sample_collected_1 sorted_reverse_def date_key_dated sample_order)

text \<open>
  The sample feeds. With limit 1 the first feed alone fills the list with an older
  article before a newer one; the newer one is returned.
\<close>

theorem rss_newest_first_witness:
  "distinct (map date_key (rss_collected sample_feeds ''ai'' 1))
   \<and> list_all (\<lambda>a. well_formed_date (date_key a)) (rss_collected sample_feeds ''ai'' 1)
   \<and> rss_collected sample_feeds ''ai'' 1 =
       [dated ''Older'' ''2024-05-01T10:00:00'', dated ''Newest'' ''2024-05-03T08:30:00'']
   \<and> rss_fetch_news sample_feeds ''ai'' 1 = [dated ''Newest'' ''2024-05-03T08:30:00'']
   \<and> rss_fetch_news sample_feeds ''ai'' 5 =
       [dated ''Newest'' ''2024-05-03T08:30:00'', dated ''Middle'' ''2024-05-02T23:59:59'',
        dated ''Older'' ''2024-05-01T10:00:00'']
   \<and> sorted_wrt (\<lambda>x y. instant (date_key y) < instant (date_key x))
        (rss_fetch_news sample_feeds ''ai'' 5)"
proof -
  have h1: "distinct (map date_key (rss_collected sample_feeds ''ai'' 1))
     \<and> (\<forall>a \<in> set (rss_collected sample_feeds ''ai'' 1). well_formed_date (date_key a))"
    by (simp add: sample_collected_1 date_key_dated sample_well_formed)
  have h5: "distinct (map date_key (rss_collected sample_feeds ''ai'' 5))
     \<and> (\<forall>a \<in> set (rss_collected sample_feeds ''ai'' 5). well_formed_date (date_key a))"
    by (simp add: sample_collected date_key_dated sample_well_formed)
  from rss_newest_first [where fetch_from_source = sample_feeds and query = "''ai''"
      and max_results = 1] h1
  have "rss_fetch_news sample_feeds ''ai'' 1
       = py_take 1 (sorted_reverse date_key (rss_collected sample_feeds ''ai'' 1))"
    by blast
  then have r1: "rss_fetch_news sample_feeds ''ai'' 1 = [dated ''Newest'' ''2024-05-03T08:30:00'']"
    by (simp add: sample_sorted_1 py_take_def)
  from rss_newest_first [where fetch_from_source = sample_feeds and query = "''ai''"
      and max_results = 5] h5
  have a5: "rss_fetch_news sample_feeds ''ai'' 5
       = py_take 5 (sorted_reverse date_key (rss_collected sample_feeds ''ai'' 5))"
    and s5: "sorted_wrt (\<lambda>x y. instant (date_key y) < instant (date_key x))
        (rss_fetch_news sample_feeds ''ai'' 5)"
    by blast+
  from a5 have r5: "rss_fetch_news sample_feeds ''ai'' 5 =
       [dated ''Newest'' ''2024-05-03T08:30:00'', dated ''Middle'' ''2024-05-02T23:59:59'',
        dated ''Older'' ''2024-05-01T10:00:00'']"
    by (simp add: sample_sorted py_take_def)
  have w1: "list_all (\<lambda>a. well_formed_date (date_key a)) (rss_collected sample_feeds ''ai'' 1)"
    using h1 by (simp add: list_all_iff)
  show ?thesis using h1 w1 r1 r5 s5 sample_collected_1 by blast
qed

end
